theory Spec2Isabelle
  imports Complex_Main
begin

section \<open>The MyMazda connection: values, exceptions and the outside world\<close>

text \<open>
  The theory embeds \<^verbatim>\<open>pymazda/connection.py\<close>: the class \<^verbatim>\<open>Connection\<close> with its key
  derivation, payload cipher wrappers, request signing, login and the retrying request
  pipeline. Python objects that the code stores or indexes without checking their type
  (the decoded JSON of a response, the keys and the token taken from it) are values of
  \<open>pyval\<close>; \<^verbatim>\<open>None\<close> is \<open>PNone\<close>. A Python \<^verbatim>\<open>str\<close> is a \<open>string\<close>, read as its UTF-8
  bytes, so \<^verbatim>\<open>.encode("utf-8")\<close> and \<^verbatim>\<open>.decode("utf-8")\<close> are the identity. Numbers
  (JSON numbers, the float that \<^verbatim>\<open>time.time()\<close> returns) are real numbers.
\<close>

datatype pyval =
    PNone
  | PBool bool
  | PNum real
  | PStr string
  | PList "pyval list"
  | PDict "(string \<times> pyval) list"

text \<open>
  Every exception the code raises, by its class. The five \<^verbatim>\<open>Mazda...\<close> classes are
  imported from \<^verbatim>\<open>pymazda.exceptions\<close> and carry their message. \<open>TypeError\<close> and
  \<open>KeyError\<close> are raised by Python itself; \<open>ClientError\<close> stands for a failure of the HTTP
  session or of \<^verbatim>\<open>response.json()\<close>, \<open>CryptoError\<close> for a failure inside a helper of
  \<^verbatim>\<open>pymazda.crypto_utils\<close>, \<open>Base64Error\<close> for \<^verbatim>\<open>base64.b64decode\<close> and
  \<open>JSONDecodeError\<close> for \<^verbatim>\<open>json.loads\<close>.
\<close>

datatype exn =
    MazdaException string
  | MazdaAPIEncryptionException string
  | MazdaAuthenticationException string
  | MazdaAccountLockedException string
  | MazdaTokenExpiredException string
  | TypeError
  | KeyError string
  | ClientError
  | CryptoError
  | Base64Error
  | JSONDecodeError

text \<open>\<^verbatim>\<open>obj[key]\<close> with a string key: only a dict can be indexed by a string.\<close>

definition getitem :: "pyval \<Rightarrow> string \<Rightarrow> exn + pyval" where
  "getitem obj key =
     (case obj of
        PDict kvs \<Rightarrow> (case map_of kvs key of None \<Rightarrow> Inl (KeyError key) | Some v \<Rightarrow> Inr v)
      | _ \<Rightarrow> Inl TypeError)"

text \<open>The number a value counts as in arithmetic and comparisons (\<^verbatim>\<open>bool\<close> is an \<^verbatim>\<open>int\<close>).\<close>

definition num_of :: "pyval \<Rightarrow> real option" where
  "num_of v = (case v of PNum x \<Rightarrow> Some x | PBool b \<Rightarrow> Some (if b then 1 else 0) | _ \<Rightarrow> None)"

text \<open>\<^verbatim>\<open>a + b\<close>: strings and lists concatenate, numbers add, everything else raises.\<close>

definition py_add :: "pyval \<Rightarrow> pyval \<Rightarrow> exn + pyval" where
  "py_add a b =
     (case (a, b) of
        (PStr x, PStr y) \<Rightarrow> Inr (PStr (x @ y))
      | (PList x, PList y) \<Rightarrow> Inr (PList (x @ y))
      | _ \<Rightarrow> (case (num_of a, num_of b) of
                (Some x, Some y) \<Rightarrow> Inr (PNum (x + y))
              | _ \<Rightarrow> Inl TypeError))"

text \<open>\<^verbatim>\<open>a <= t\<close> for a float \<open>t\<close>: defined for numbers only, \<open>None\<close> is the \<^verbatim>\<open>TypeError\<close>.\<close>

definition py_le :: "pyval \<Rightarrow> real \<Rightarrow> bool option" where
  "py_le a t = (case num_of a of Some x \<Rightarrow> Some (x \<le> t) | None \<Rightarrow> None)"

subsection \<open>Strings\<close>

definition upper_char :: "char \<Rightarrow> char" where
  "upper_char c =
     (case map_of (zip ''abcdefghijklmnopqrstuvwxyz'' ''ABCDEFGHIJKLMNOPQRSTUVWXYZ'') c of
        Some d \<Rightarrow> d
      | None \<Rightarrow> c)"

definition lower_char :: "char \<Rightarrow> char" where
  "lower_char c =
     (case map_of (zip ''ABCDEFGHIJKLMNOPQRSTUVWXYZ'' ''abcdefghijklmnopqrstuvwxyz'') c of
        Some d \<Rightarrow> d
      | None \<Rightarrow> c)"

text \<open>\<^verbatim>\<open>s.upper()\<close> and \<^verbatim>\<open>s.lower()\<close>, on the ASCII letters.\<close>

definition upper :: "string \<Rightarrow> string" where
  "upper s = map upper_char s"

definition lower :: "string \<Rightarrow> string" where
  "lower s = map lower_char s"

text \<open>\<^verbatim>\<open>s[a:b]\<close> for \<open>0 \<le> a \<le> b\<close>; \<^verbatim>\<open>s[a:]\<close> is \<open>drop a s\<close>.\<close>

definition slice :: "nat \<Rightarrow> nat \<Rightarrow> string \<Rightarrow> string" where
  "slice a b s = take (b - a) (drop a s)"

text \<open>\<^verbatim>\<open>needle in s\<close> for strings.\<close>

fun contains :: "string \<Rightarrow> string \<Rightarrow> bool" where
  "contains needle [] = (needle = [])"
| "contains needle (c # s) = (take (length needle) (c # s) = needle \<or> contains needle s)"

text \<open>\<^verbatim>\<open>str(n)\<close> for an integer.\<close>

fun str_nat :: "nat \<Rightarrow> string" where
  "str_nat n =
     (if n < 10 then [''0123456789'' ! n]
      else str_nat (n div 10) @ [''0123456789'' ! (n mod 10)])"

declare str_nat.simps [simp del]

definition str_int :: "int \<Rightarrow> string" where
  "str_int i = (if i < 0 then CHR ''-'' # str_nat (nat (- i)) else str_nat (nat i))"

text \<open>\<^verbatim>\<open>int(round(x))\<close>: Python 3 rounds a half to the even neighbour.\<close>

definition py_round :: "real \<Rightarrow> int" where
  "py_round x =
     (let f = \<lfloor>x\<rfloor>; d = x - of_int f
      in if d < 1 / 2 then f else if 1 / 2 < d then f + 1 else if even f then f else f + 1)"

subsection \<open>Constants of the module\<close>

definition APP_CODE :: string where "APP_CODE = ''202007270941270111799''"
definition BASE_URL :: string where "BASE_URL = ''https://0cxo7m58.mazda.com/prod/''"
definition USHER_URL :: string where "USHER_URL = ''https://ptznwbh8.mazda.com/appapi/v1/''"
definition IV :: string where "IV = ''0102030405060708''"
definition SIGNATURE_MD5 :: string where "SIGNATURE_MD5 = ''C383D8C4D279B78130AD52DC71D95CAA''"
definition APP_PACKAGE_ID :: string where "APP_PACKAGE_ID = ''com.interrait.mymazda''"
definition DEVICE_ID :: string where "DEVICE_ID = ''D9E89AFC-BD3C-309F-A48C-A2A9466DFE9C''"
definition USER_AGENT_BASE_API :: string where "USER_AGENT_BASE_API = ''MyMazda-Android/7.1.0''"
definition USER_AGENT_USHER_API :: string where
  "USER_AGENT_USHER_API = ''MyMazda/7.1.0 (Google Pixel 3a; Android 11)''"
definition APP_OS :: string where "APP_OS = ''Android''"
definition APP_VERSION :: string where "APP_VERSION = ''7.1.0''"
definition MAX_RETRIES :: nat where "MAX_RETRIES = 4"

subsection \<open>The outside world\<close>

text \<open>
  An HTTP request as \<^verbatim>\<open>self._session.request\<close> receives it: method, URL, and the
  keyword arguments \<^verbatim>\<open>params\<close>, \<^verbatim>\<open>headers\<close>, \<^verbatim>\<open>data\<close> and \<^verbatim>\<open>json\<close> (\<open>PNone\<close> when not given).
\<close>

record http_request =
  rq_method :: string
  rq_url :: string
  rq_params :: "(string \<times> string) list"
  rq_headers :: "(string \<times> pyval) list"
  rq_data :: pyval
  rq_json :: pyval

text \<open>
  What the code calls and does not define is a parameter of the model, collected in one
  record, so that every theorem holds for every choice of it:
  \<^item> \<open>server hist req\<close>: the decoded JSON body of the response to \<open>req\<close> after the requests
    \<open>hist\<close> (\<^verbatim>\<open>await self._session.request(...)\<close> followed by \<^verbatim>\<open>await response.json()\<close>),
    \<open>None\<close> when either raises;
  \<^item> \<open>clock n\<close>: the value of the \<open>n\<close>-th call of \<^verbatim>\<open>time.time()\<close>;
  \<^item> \<open>md5_hex\<close>, \<open>sha256_hex\<close>: \<^verbatim>\<open>hashlib.md5(s.encode()).hexdigest()\<close> and the same for
    \<^verbatim>\<open>sha256\<close>;
  \<^item> \<open>aes_encrypt_b64 buf key iv\<close>, \<open>aes_decrypt_str buf key iv\<close>, \<open>rsa_encrypt msg key\<close>:
    the helpers \<^verbatim>\<open>encryptAES128CBCBufferToBase64String\<close>,
    \<^verbatim>\<open>decryptAES128CBCBufferToString\<close> and \<^verbatim>\<open>encryptRSAECBPKCS1Padding\<close> of
    \<^verbatim>\<open>pymazda.crypto_utils\<close>, \<open>None\<close> when they raise;
  \<^item> \<open>b64decode\<close>, \<open>b64encode\<close>, \<open>json_loads\<close>, \<open>json_dumps\<close>, \<open>urlencode\<close>: the library
    functions of these names; \<open>b64decode\<close> and \<open>json_loads\<close> give \<open>None\<close> when they raise.
\<close>

record env =
  server :: "http_request list \<Rightarrow> http_request \<Rightarrow> pyval option"
  clock :: "nat \<Rightarrow> real"
  md5_hex :: "string \<Rightarrow> string"
  sha256_hex :: "string \<Rightarrow> string"
  aes_encrypt_b64 :: "string \<Rightarrow> pyval \<Rightarrow> string \<Rightarrow> string option"
  aes_decrypt_str :: "string \<Rightarrow> pyval \<Rightarrow> string \<Rightarrow> string option"
  rsa_encrypt :: "string \<Rightarrow> pyval \<Rightarrow> string option"
  b64decode :: "pyval \<Rightarrow> string option"
  b64encode :: "string \<Rightarrow> string"
  json_loads :: "string \<Rightarrow> pyval option"
  json_dumps :: "(string \<times> pyval) list \<Rightarrow> string"
  urlencode :: "(string \<times> string) list \<Rightarrow> string"

text \<open>The part of the world that changes: the requests sent so far and the clock reads.\<close>

record world =
  sent :: "http_request list"
  ticks :: nat

text \<open>The fields of a \<^verbatim>\<open>Connection\<close> object.\<close>

record conn =
  email :: string
  password :: string
  enc_key :: pyval
  sign_key :: pyval
  access_token :: pyval
  access_token_expiration_ts :: pyval

text \<open>\<^verbatim>\<open>Connection.__init__\<close>.\<close>

definition init :: "string \<Rightarrow> string \<Rightarrow> conn" where
  "init em pw =
     \<lparr>email = em, password = pw, enc_key = PNone, sign_key = PNone,
      access_token = PNone, access_token_expiration_ts = PNone\<rparr>"

text \<open>\<^verbatim>\<open>time.time()\<close>: the next reading of the clock.\<close>

definition time_time :: "env \<Rightarrow> world \<Rightarrow> real \<times> world" where
  "time_time env w = (clock env (ticks w), w\<lparr>ticks := Suc (ticks w)\<rparr>)"

text \<open>
  \<^verbatim>\<open>await self._session.request(...)\<close> and \<^verbatim>\<open>await response.json()\<close> on its result: the
  request joins the requests sent, and the server's answer, or the failure to get one,
  comes back.
\<close>

definition session_request :: "env \<Rightarrow> world \<Rightarrow> http_request \<Rightarrow> (exn + pyval) \<times> world" where
  "session_request env w req =
     (case server env (sent w) req of
        None \<Rightarrow> (Inl ClientError, w\<lparr>sent := sent w @ [req]\<rparr>)
      | Some j \<Rightarrow> (Inr j, w\<lparr>sent := sent w @ [req]\<rparr>))"

section \<open>Key derivation, signing and the payload cipher\<close>

definition get_timestamp_str_ms :: "env \<Rightarrow> world \<Rightarrow> string \<times> world" where
  "get_timestamp_str_ms env w =
     (case time_time env w of (t, w') \<Rightarrow> (str_int (py_round (t * 1000)), w'))"

definition get_timestamp_str :: "env \<Rightarrow> world \<Rightarrow> string \<times> world" where
  "get_timestamp_str env w =
     (case time_time env w of (t, w') \<Rightarrow> (str_int (py_round t), w'))"

definition get_decryption_key_from_app_code :: "env \<Rightarrow> string" where
  "get_decryption_key_from_app_code env =
     (let val1 = upper (md5_hex env (APP_CODE @ APP_PACKAGE_ID));
          val2 = lower (md5_hex env (val1 @ SIGNATURE_MD5))
      in slice 4 20 val2)"

definition get_temporary_sign_key_from_app_code :: "env \<Rightarrow> string \<Rightarrow> string" where
  "get_temporary_sign_key_from_app_code env appCode =
     (let val1 = upper (md5_hex env (appCode @ APP_PACKAGE_ID));
          val2 = lower (md5_hex env (val1 @ SIGNATURE_MD5))
      in slice 20 32 val2 @ slice 0 10 val2 @ slice 4 6 val2)"

text \<open>
  \<^verbatim>\<open>__get_payload_sign\<close>: the key is whatever the caller holds; concatenating it to a
  string raises unless it is a string.
\<close>

definition get_payload_sign :: "env \<Rightarrow> string \<Rightarrow> pyval \<Rightarrow> exn + string" where
  "get_payload_sign env encryptedPayloadAndTimestamp signKey =
     (case py_add (PStr encryptedPayloadAndTimestamp) signKey of
        Inr (PStr s) \<Rightarrow> Inr (upper (sha256_hex env s))
      | Inr _ \<Rightarrow> Inl TypeError
      | Inl e \<Rightarrow> Inl e)"

definition get_sign_from_timestamp :: "env \<Rightarrow> string option \<Rightarrow> exn + string" where
  "get_sign_from_timestamp env timestamp =
     (case timestamp of
        None \<Rightarrow> Inr ''''
      | Some t \<Rightarrow>
          if t = '''' then Inr ''''
          else (let timestamp_extended = upper (t @ drop 6 t @ drop 3 t);
                    temporary_sign_key = get_temporary_sign_key_from_app_code env APP_CODE
                in case get_payload_sign env timestamp_extended (PStr temporary_sign_key) of
                     Inl e \<Rightarrow> Inl e
                   | Inr s \<Rightarrow> Inr (upper s)))"

text \<open>
  The wrappers take the payload and the timestamp as \<open>Some\<close> string or as \<open>None\<close>, since
  the code tests both for \<^verbatim>\<open>None\<close> and for \<^verbatim>\<open>""\<close>.
\<close>

definition encrypt_payload_using_key :: "env \<Rightarrow> conn \<Rightarrow> string option \<Rightarrow> exn + string" where
  "encrypt_payload_using_key env c payload =
     (if enc_key c = PNone \<or> enc_key c = PStr '''' then
        Inl (MazdaException ''Missing encryption key'')
      else (case payload of
              None \<Rightarrow> Inr ''''
            | Some p \<Rightarrow>
                if p = '''' then Inr ''''
                else (case aes_encrypt_b64 env p (enc_key c) IV of
                        None \<Rightarrow> Inl CryptoError
                      | Some s \<Rightarrow> Inr s)))"

definition get_sign_from_payload_and_timestamp ::
  "env \<Rightarrow> conn \<Rightarrow> string option \<Rightarrow> string option \<Rightarrow> exn + string" where
  "get_sign_from_payload_and_timestamp env c payload timestamp =
     (case timestamp of
        None \<Rightarrow> Inr ''''
      | Some t \<Rightarrow>
          if t = '''' then Inr ''''
          else if sign_key c = PNone \<or> sign_key c = PStr '''' then
            Inl (MazdaException ''Missing sign key'')
          else (case encrypt_payload_using_key env c payload of
                  Inl e \<Rightarrow> Inl e
                | Inr enc \<Rightarrow> get_payload_sign env (enc @ t @ drop 6 t @ drop 3 t) (sign_key c)))"

definition decrypt_payload_using_app_code :: "env \<Rightarrow> pyval \<Rightarrow> exn + pyval" where
  "decrypt_payload_using_app_code env payload =
     (case b64decode env payload of
        None \<Rightarrow> Inl Base64Error
      | Some buf \<Rightarrow>
          (let key = get_decryption_key_from_app_code env
           in case aes_decrypt_str env buf (PStr key) IV of
                None \<Rightarrow> Inl CryptoError
              | Some decrypted \<Rightarrow>
                  (case json_loads env decrypted of
                     None \<Rightarrow> Inl JSONDecodeError
                   | Some v \<Rightarrow> Inr v)))"

definition decrypt_payload_using_key :: "env \<Rightarrow> conn \<Rightarrow> pyval \<Rightarrow> exn + pyval" where
  "decrypt_payload_using_key env c payload =
     (if enc_key c = PNone \<or> enc_key c = PStr '''' then
        Inl (MazdaException ''Missing encryption key'')
      else (case b64decode env payload of
              None \<Rightarrow> Inl Base64Error
            | Some buf \<Rightarrow>
                (case aes_decrypt_str env buf (enc_key c) IV of
                   None \<Rightarrow> Inl CryptoError
                 | Some decrypted \<Rightarrow>
                     (case json_loads env decrypted of
                        None \<Rightarrow> Inl JSONDecodeError
                      | Some v \<Rightarrow> Inr v))))"

definition encrypt_payload_with_public_key ::
  "env \<Rightarrow> string \<Rightarrow> pyval \<Rightarrow> world \<Rightarrow> (exn + string) \<times> world" where
  "encrypt_payload_with_public_key env pw publicKey w =
     (case get_timestamp_str env w of
        (timestamp, w') \<Rightarrow>
          (case rsa_encrypt env (pw @ '':'' @ timestamp) publicKey of
             None \<Rightarrow> (Inl CryptoError, w')
           | Some encryptedBuffer \<Rightarrow> (Inr (b64encode env encryptedBuffer), w')))"

section \<open>Login and the token\<close>

text \<open>\<^verbatim>\<open>obj[a][b]\<close>.\<close>

definition getitem2 :: "pyval \<Rightarrow> string \<Rightarrow> string \<Rightarrow> exn + pyval" where
  "getitem2 obj a b = (case getitem obj a of Inl e \<Rightarrow> Inl e | Inr v \<Rightarrow> getitem v b)"

text \<open>
  \<^verbatim>\<open>login\<close>, first part (up to \<^verbatim>\<open>login_response_json = await login_response.json()\<close>): the
  public key is fetched, the password encrypted and the credentials posted. Nothing of
  the connection is assigned here.
\<close>

definition login_request :: "env \<Rightarrow> conn \<Rightarrow> world \<Rightarrow> (exn + pyval) \<times> world" where
  "login_request env c w =
     (case session_request env w
             \<lparr>rq_method = ''GET'', rq_url = USHER_URL @ ''system/encryptionKey'',
              rq_params = [(''appId'', ''MazdaApp''), (''locale'', ''en-US''),
                           (''deviceId'', ''ACCT1195961580''),
                           (''sdkVersion'', ''11.2.0000.002'')],
              rq_headers = [(''User-Agent'', PStr USER_AGENT_USHER_API)],
              rq_data = PNone, rq_json = PNone\<rparr> of
        (Inl e, w1) \<Rightarrow> (Inl e, w1)
      | (Inr encryption_key_response_json, w1) \<Rightarrow>
          (case getitem2 encryption_key_response_json ''data'' ''publicKey'' of
             Inl e \<Rightarrow> (Inl e, w1)
           | Inr public_key \<Rightarrow>
               (case encrypt_payload_with_public_key env (password c) public_key w1 of
                  (Inl e, w2) \<Rightarrow> (Inl e, w2)
                | (Inr encrypted_password, w2) \<Rightarrow>
                    (case getitem2 encryption_key_response_json ''data'' ''versionPrefix'' of
                       Inl e \<Rightarrow> (Inl e, w2)
                     | Inr version_prefix \<Rightarrow>
                         (case py_add version_prefix (PStr encrypted_password) of
                            Inl e \<Rightarrow> (Inl e, w2)
                          | Inr pw \<Rightarrow>
                              session_request env w2
                                \<lparr>rq_method = ''POST'', rq_url = USHER_URL @ ''user/login'',
                                 rq_params = [],
                                 rq_headers = [(''User-Agent'', PStr USER_AGENT_USHER_API)],
                                 rq_data = PNone,
                                 rq_json = PDict
                                   [(''appId'', PStr ''MazdaApp''),
                                    (''deviceId'', PStr ''ACCT1195961580''),
                                    (''locale'', PStr ''en-US''),
                                    (''password'', pw),
                                    (''sdkVersion'', PStr ''11.2.0000.002''),
                                    (''userId'', PStr (email c)),
                                    (''userIdType'', PStr ''email'')]\<rparr>)))))"

text \<open>
  \<^verbatim>\<open>login\<close>, second part (from \<^verbatim>\<open>if login_response_json["status"] == ...\<close> to the end):
  the status is classified and, on \<^verbatim>\<open>"OK"\<close>, the token and its expiration are assigned,
  one after the other.
\<close>

definition login_response :: "conn \<Rightarrow> pyval \<Rightarrow> (exn + unit) \<times> conn" where
  "login_response c login_response_json =
     (case getitem login_response_json ''status'' of
        Inl e \<Rightarrow> (Inl e, c)
      | Inr status \<Rightarrow>
          if status = PStr ''INVALID_CREDENTIAL'' then
            (Inl (MazdaAuthenticationException ''Invalid email or password''), c)
          else if status = PStr ''USER_LOCKED'' then
            (Inl (MazdaAccountLockedException ''Account has been locked''), c)
          else if status \<noteq> PStr ''OK'' then
            (Inl (MazdaException ''Login failed''), c)
          else (case getitem2 login_response_json ''data'' ''accessToken'' of
                  Inl e \<Rightarrow> (Inl e, c)
                | Inr tok \<Rightarrow>
                    (case getitem2 login_response_json ''data'' ''accessTokenExpirationTs'' of
                       Inl e \<Rightarrow> (Inl e, c\<lparr>access_token := tok\<rparr>)
                     | Inr ts \<Rightarrow>
                         (Inr (), c\<lparr>access_token := tok,
                                    access_token_expiration_ts := ts\<rparr>))))"

definition login :: "env \<Rightarrow> conn \<Rightarrow> world \<Rightarrow> (exn + unit) \<times> conn \<times> world" where
  "login env c w =
     (case login_request env c w of
        (Inl e, w') \<Rightarrow> (Inl e, c, w')
      | (Inr login_response_json, w') \<Rightarrow>
          (case login_response c login_response_json of (r, c') \<Rightarrow> (r, c', w')))"

text \<open>
  \<^verbatim>\<open>__ensure_token_is_valid\<close>: \<^verbatim>\<open>or\<close> evaluates from the left and stops at the first
  true disjunct, so the clock is read only when token and expiration are both set.
\<close>

definition ensure_token_is_valid :: "env \<Rightarrow> conn \<Rightarrow> world \<Rightarrow> (exn + unit) \<times> conn \<times> world" where
  "ensure_token_is_valid env c w =
     (if access_token c = PNone \<or> access_token_expiration_ts c = PNone then login env c w
      else (case time_time env w of
              (now, w') \<Rightarrow>
                (case py_le (access_token_expiration_ts c) now of
                   None \<Rightarrow> (Inl TypeError, c, w')
                 | Some True \<Rightarrow> login env c w'
                 | Some False \<Rightarrow> (Inr (), c, w'))))"

section \<open>The request pipeline\<close>

text \<open>
  \<^verbatim>\<open>__send_api_request\<close>, last part: the classification of the response envelope.
\<close>

definition handle_response :: "env \<Rightarrow> string \<Rightarrow> conn \<Rightarrow> pyval \<Rightarrow> exn + pyval" where
  "handle_response env uri c response_json =
     (case getitem response_json ''state'' of
        Inl e \<Rightarrow> Inl e
      | Inr state \<Rightarrow>
          if state = PStr ''S'' then
            (case getitem response_json ''payload'' of
               Inl e \<Rightarrow> Inl e
             | Inr payload \<Rightarrow>
                 if contains ''checkVersion'' uri then decrypt_payload_using_app_code env payload
                 else decrypt_payload_using_key env c payload)
          else (case getitem response_json ''errorCode'' of
                  Inl e \<Rightarrow> Inl e
                | Inr errorCode \<Rightarrow>
                    if errorCode = PNum 600001 then
                      Inl (MazdaAPIEncryptionException ''Server rejected encrypted request'')
                    else if errorCode = PNum 600002 then
                      Inl (MazdaTokenExpiredException ''Token expired'')
                    else Inl (MazdaException ''Request failed for an unknown reason'')))"

text \<open>The headers of a request to the main API host, before \<^verbatim>\<open>sign\<close> is added.\<close>

definition base_headers :: "conn \<Rightarrow> bool \<Rightarrow> string \<Rightarrow> (string \<times> pyval) list" where
  "base_headers c needs_auth timestamp =
     [(''device-id'', PStr DEVICE_ID),
      (''app-code'', PStr APP_CODE),
      (''app-os'', PStr APP_OS),
      (''user-agent'', PStr USER_AGENT_BASE_API),
      (''app-version'', PStr APP_VERSION),
      (''app-unique-id'', PStr APP_PACKAGE_ID),
      (''region'', PStr ''us''),
      (''access-token'', if needs_auth then access_token c else PStr ''''),
      (''language'', PStr ''en-US''),
      (''locale'', PStr ''en-US''),
      (''X-acf-sensor-data'', PStr ''''),
      (''req-id'', PStr (''req_'' @ timestamp)),
      (''timestamp'', PStr timestamp)]"

text \<open>
  The \<^verbatim>\<open>sign\<close> header of \<^verbatim>\<open>__send_api_request\<close>: the \<^verbatim>\<open>if\<close>/\<^verbatim>\<open>elif\<close> chain on the URI and
  the method; a method other than GET and POST gets no such header.
\<close>

definition sign_header ::
  "env \<Rightarrow> conn \<Rightarrow> string \<Rightarrow> string \<Rightarrow> string \<Rightarrow> string \<Rightarrow> string \<Rightarrow>
   exn + (string \<times> pyval) list" where
  "sign_header env c method uri original_query_str original_body_str timestamp =
     (if contains ''checkVersion'' uri then
        (case get_sign_from_timestamp env (Some timestamp) of
           Inl e \<Rightarrow> Inl e | Inr s \<Rightarrow> Inr [(''sign'', PStr s)])
      else if method = ''GET'' then
        (case get_sign_from_payload_and_timestamp env c (Some original_query_str)
                (Some timestamp) of
           Inl e \<Rightarrow> Inl e | Inr s \<Rightarrow> Inr [(''sign'', PStr s)])
      else if method = ''POST'' then
        (case get_sign_from_payload_and_timestamp env c (Some original_body_str)
                (Some timestamp) of
           Inl e \<Rightarrow> Inl e | Inr s \<Rightarrow> Inr [(''sign'', PStr s)])
      else Inr [])"

text \<open>
  \<^verbatim>\<open>__send_api_request\<close>. A non-empty query is encrypted although the result
  (\<^verbatim>\<open>encrypted_query_dict\<close>) is not passed on; the encryption can still raise.
\<close>

definition send_api_request ::
  "env \<Rightarrow> string \<Rightarrow> string \<Rightarrow> (string \<times> string) list \<Rightarrow> (string \<times> pyval) list \<Rightarrow>
   bool \<Rightarrow> bool \<Rightarrow> conn \<Rightarrow> world \<Rightarrow> (exn + pyval) \<times> world" where
  "send_api_request env method uri query_dict body_dict needs_keys needs_auth c w =
     (case get_timestamp_str_ms env w of
        (timestamp, w1) \<Rightarrow>
          (let original_query_str = (if query_dict \<noteq> [] then urlencode env query_dict else '''')
           in case (if query_dict \<noteq> []
                    then encrypt_payload_using_key env c (Some original_query_str)
                    else Inr '''') of
                Inl e \<Rightarrow> (Inl e, w1)
              | Inr encrypted_params \<Rightarrow>
                  (let original_body_str =
                         (if body_dict \<noteq> [] then json_dumps env body_dict else '''')
                   in case (if body_dict \<noteq> []
                            then encrypt_payload_using_key env c (Some original_body_str)
                            else Inr '''') of
                        Inl e \<Rightarrow> (Inl e, w1)
                      | Inr encrypted_body_Str \<Rightarrow>
                          (case sign_header env c method uri original_query_str
                                  original_body_str timestamp of
                             Inl e \<Rightarrow> (Inl e, w1)
                           | Inr sign \<Rightarrow>
                               (case session_request env w1
                                       \<lparr>rq_method = method, rq_url = BASE_URL @ uri,
                                        rq_params = [],
                                        rq_headers = base_headers c needs_auth timestamp @ sign,
                                        rq_data = PStr encrypted_body_Str,
                                        rq_json = PNone\<rparr> of
                                  (Inl e, w2) \<Rightarrow> (Inl e, w2)
                                | (Inr response_json, w2) \<Rightarrow>
                                    (handle_response env uri c response_json, w2))))))"

text \<open>
  \<^verbatim>\<open>retry_message\<close> in \<^verbatim>\<open>__api_request_retry\<close>: for a retry, the string
  \<^verbatim>\<open>" attempt #"\<close> plus the integer \<^verbatim>\<open>num_retries + 1\<close>.
\<close>

definition retry_message :: "nat \<Rightarrow> exn + pyval" where
  "retry_message num_retries =
     (if num_retries > 0 then py_add (PStr '' attempt #'') (PNum (real (num_retries + 1)))
      else Inr (PStr ''''))"

text \<open>\<^verbatim>\<open>__retrieve_keys\<close>, the two assignments after the response has arrived.\<close>

definition store_keys :: "conn \<Rightarrow> pyval \<Rightarrow> (exn + unit) \<times> conn" where
  "store_keys c response =
     (case getitem response ''encKey'' of
        Inl e \<Rightarrow> (Inl e, c)
      | Inr ek \<Rightarrow>
          (case getitem response ''signKey'' of
             Inl e \<Rightarrow> (Inl e, c\<lparr>enc_key := ek\<rparr>)
           | Inr sk \<Rightarrow> (Inr (), c\<lparr>enc_key := ek, sign_key := sk\<rparr>)))"

text \<open>
  The two \<^verbatim>\<open>except\<close> clauses of \<^verbatim>\<open>__api_request_retry\<close>: which exceptions each one
  catches. The exception classes of \<^verbatim>\<open>pymazda.exceptions\<close> are taken as unrelated by
  inheritance, so that a clause catches the exceptions of its own class only.
\<close>

definition is_encryption_exn :: "exn \<Rightarrow> bool" where
  "is_encryption_exn e = (case e of MazdaAPIEncryptionException m \<Rightarrow> True | _ \<Rightarrow> False)"

definition is_token_expired_exn :: "exn \<Rightarrow> bool" where
  "is_token_expired_exn e = (case e of MazdaTokenExpiredException m \<Rightarrow> True | _ \<Rightarrow> False)"

text \<open>
  \<^verbatim>\<open>api_request\<close>, \<^verbatim>\<open>__api_request_retry\<close>, \<^verbatim>\<open>__ensure_keys_present\<close> and
  \<^verbatim>\<open>__retrieve_keys\<close> call one another: a key retrieval is itself an \<^verbatim>\<open>api_request\<close>,
  which starts again with \<^verbatim>\<open>num_retries = 0\<close>. Nothing bounds the depth of these calls
  (a server that answers every version check with 600001 makes each key retrieval start
  another), so the four functions take the number of nested calls of
  \<^verbatim>\<open>__api_request_retry\<close> that are still allowed; the result is \<open>None\<close> when that depth
  is exceeded.
\<close>

function (sequential) api_request ::
      "env \<Rightarrow> nat \<Rightarrow> string \<Rightarrow> string \<Rightarrow> (string \<times> string) list \<Rightarrow> (string \<times> pyval) list \<Rightarrow>
       bool \<Rightarrow> bool \<Rightarrow> conn \<Rightarrow> world \<Rightarrow> ((exn + pyval) \<times> conn \<times> world) option"
  and api_request_retry ::
      "env \<Rightarrow> nat \<Rightarrow> string \<Rightarrow> string \<Rightarrow> (string \<times> string) list \<Rightarrow> (string \<times> pyval) list \<Rightarrow>
       bool \<Rightarrow> bool \<Rightarrow> nat \<Rightarrow> conn \<Rightarrow> world \<Rightarrow> ((exn + pyval) \<times> conn \<times> world) option"
  and ensure_keys_present ::
      "env \<Rightarrow> nat \<Rightarrow> conn \<Rightarrow> world \<Rightarrow> ((exn + unit) \<times> conn \<times> world) option"
  and retrieve_keys ::
      "env \<Rightarrow> nat \<Rightarrow> conn \<Rightarrow> world \<Rightarrow> ((exn + unit) \<times> conn \<times> world) option"
where
  "api_request env depth method uri query_dict body_dict needs_keys needs_auth c w =
     api_request_retry env depth method uri query_dict body_dict needs_keys needs_auth 0 c w"
| "api_request_retry env 0 method uri query_dict body_dict needs_keys needs_auth
     num_retries c w = None"
| "api_request_retry env (Suc depth) method uri query_dict body_dict needs_keys needs_auth
     num_retries c w =
     (if num_retries > MAX_RETRIES then
        Some (Inl (MazdaException ''Request exceeded max number of retries''), c, w)
      else
        (case (if needs_keys then ensure_keys_present env depth c w else Some (Inr (), c, w)) of
           None \<Rightarrow> None
         | Some (Inl e, c1, w1) \<Rightarrow> Some (Inl e, c1, w1)
         | Some (Inr u, c1, w1) \<Rightarrow>
             (case (if needs_auth then ensure_token_is_valid env c1 w1 else (Inr (), c1, w1)) of
                (Inl e, c2, w2) \<Rightarrow> Some (Inl e, c2, w2)
              | (Inr u', c2, w2) \<Rightarrow>
                  (case retry_message num_retries of
                     Inl e \<Rightarrow> Some (Inl e, c2, w2)
                   | Inr msg \<Rightarrow>
                       (case send_api_request env method uri query_dict body_dict
                               needs_keys needs_auth c2 w2 of
                          (Inr v, w3) \<Rightarrow> Some (Inr v, c2, w3)
                        | (Inl e, w3) \<Rightarrow>
                            if is_encryption_exn e then
                              (case retrieve_keys env depth c2 w3 of
                                 None \<Rightarrow> None
                               | Some (Inl e', c4, w4) \<Rightarrow> Some (Inl e', c4, w4)
                               | Some (Inr u'', c4, w4) \<Rightarrow>
                                   api_request_retry env depth method uri query_dict body_dict
                                     needs_keys needs_auth (num_retries + 1) c4 w4)
                            else if is_token_expired_exn e then
                              (case login env c2 w3 of
                                 (Inl e', c4, w4) \<Rightarrow> Some (Inl e', c4, w4)
                               | (Inr u'', c4, w4) \<Rightarrow>
                                   api_request_retry env depth method uri query_dict body_dict
                                     needs_keys needs_auth (num_retries + 1) c4 w4)
                            else Some (Inl e, c2, w3))))))"
| "ensure_keys_present env depth c w =
     (if enc_key c = PNone \<or> sign_key c = PNone then retrieve_keys env depth c w
      else Some (Inr (), c, w))"
| "retrieve_keys env depth c w =
     (case api_request env depth ''POST'' ''service/checkVersion'' [] [] False False c w of
        None \<Rightarrow> None
      | Some (Inl e, c', w') \<Rightarrow> Some (Inl e, c', w')
      | Some (Inr response, c', w') \<Rightarrow>
          (case store_keys c' response of (r, c'') \<Rightarrow> Some (r, c'', w')))"
  by pat_completeness auto
termination
  by (relation "measure (\<lambda>x. case x of
      Inl (Inl (env, depth, r)) \<Rightarrow> 4 * depth + 1
    | Inl (Inr (env, depth, r)) \<Rightarrow> 4 * depth
    | Inr (Inl (env, depth, r)) \<Rightarrow> 4 * depth + 3
    | Inr (Inr (env, depth, r)) \<Rightarrow> 4 * depth + 2)") auto

section \<open>Predicates of the properties\<close>

text \<open>
  The head of an attempt in \<^verbatim>\<open>__api_request_retry\<close>, by itself: the two statements
  \<^verbatim>\<open>if needs_keys: await self.__ensure_keys_present()\<close> and
  \<^verbatim>\<open>if needs_auth: await self.__ensure_token_is_valid()\<close>.
\<close>

definition prepare ::
  "env \<Rightarrow> nat \<Rightarrow> bool \<Rightarrow> bool \<Rightarrow> conn \<Rightarrow> world \<Rightarrow> ((exn + unit) \<times> conn \<times> world) option" where
  "prepare env depth needs_keys needs_auth c w =
     (case (if needs_keys then ensure_keys_present env depth c w else Some (Inr (), c, w)) of
        None \<Rightarrow> None
      | Some (Inl e, c1, w1) \<Rightarrow> Some (Inl e, c1, w1)
      | Some (Inr u, c1, w1) \<Rightarrow>
          Some (if needs_auth then ensure_token_is_valid env c1 w1 else (Inr (), c1, w1)))"

text \<open>The failure of \<^verbatim>\<open>__api_request_retry\<close> when the retries are used up.\<close>

definition retries_exceeded :: exn where
  "retries_exceeded = MazdaException ''Request exceeded max number of retries''"

text \<open>The test the wrappers apply to a key: \<^verbatim>\<open>key is None or key == ""\<close>.\<close>

definition absent_or_empty :: "pyval \<Rightarrow> bool" where
  "absent_or_empty k = (k = PNone \<or> k = PStr '''')"

text \<open>The two ``missing key'' errors of the wrappers.\<close>

definition missing_key_error :: "exn \<Rightarrow> bool" where
  "missing_key_error e =
     (e = MazdaException ''Missing encryption key'' \<or> e = MazdaException ''Missing sign key'')"

text \<open>Both keys set or both unset (unset is \<^verbatim>\<open>None\<close>, as \<^verbatim>\<open>__ensure_keys_present\<close> tests it).\<close>

definition keys_together :: "conn \<Rightarrow> bool" where
  "keys_together c = ((enc_key c = PNone) = (sign_key c = PNone))"

text \<open>
  A decoded key response that \<^verbatim>\<open>__retrieve_keys\<close> can store without separating the keys:
  if it has a field \<^verbatim>\<open>encKey\<close>, it has a field \<^verbatim>\<open>signKey\<close> too, and the two are both
  \<^verbatim>\<open>null\<close> or both not.
\<close>

definition key_response_ok :: "pyval \<Rightarrow> bool" where
  "key_response_ok response =
     (case getitem response ''encKey'' of
        Inl e \<Rightarrow> True
      | Inr ek \<Rightarrow>
          (case getitem response ''signKey'' of
             Inl e \<Rightarrow> False
           | Inr sk \<Rightarrow> (ek = PNone) = (sk = PNone)))"

text \<open>
  The server answers every key-retrieval request with such a response. A key-retrieval
  request is the request of \<^verbatim>\<open>__retrieve_keys\<close>, a \<^verbatim>\<open>POST\<close> of \<^verbatim>\<open>service/checkVersion\<close> on the
  main host; the response it carries is what \<^verbatim>\<open>__send_api_request\<close> returns for the
  answer: the envelope has the state \<^verbatim>\<open>"S"\<close>, and its payload, decrypted under the
  bootstrap key and decoded, is the response. Nothing is asked of the answers to other
  requests, of answers that \<^verbatim>\<open>__send_api_request\<close> turns into an exception, or of
  payloads that the server does not send.
\<close>

definition key_responses_ok :: "env \<Rightarrow> bool" where
  "key_responses_ok env =
     (\<forall>hist req j payload v.
        rq_method req = ''POST'' \<and> rq_url req = BASE_URL @ ''service/checkVersion'' \<and>
        server env hist req = Some j \<and>
        getitem j ''state'' = Inr (PStr ''S'') \<and> getitem j ''payload'' = Inr payload \<and>
        decrypt_payload_using_app_code env payload = Inr v
        \<longrightarrow> key_response_ok v)"

text \<open>
  What \<^verbatim>\<open>hexdigest()\<close> of SHA-256 returns: 64 characters, each a lower-case hexadecimal
  digit.
\<close>

definition sha256_format :: "env \<Rightarrow> bool" where
  "sha256_format env =
     (\<forall>s. length (sha256_hex env s) = 64 \<and> set (sha256_hex env s) \<subseteq> set ''0123456789abcdef'')"

section \<open>A concrete environment\<close>

text \<open>
  One small, fully computable choice of the parameters, on which the model runs and the
  hypotheses of the theorems below can be seen to hold together. The cipher reverses its
  input (it is its own inverse, Base64 is the identity), the hashes are constant, and
  \<^verbatim>\<open>json.loads\<close> knows a handful of texts, each with the value Python gives it. The server
  answers a version check with the payload for a chosen text, the two login requests
  with a public key and a chosen login response, and the \<open>n\<close>-th other request with the
  \<open>n\<close>-th entry of a script.
\<close>

definition keys_text :: string where
  \<open>keys_text = ''{"encKey": "abcdefghijklmnop", "signKey": "qrstuvwxyz012345"}''\<close>

definition enc_only_text :: string where
  \<open>enc_only_text = ''{"encKey": "abcdefghijklmnop"}''\<close>

definition keys_json :: pyval where
  "keys_json =
     PDict [(''encKey'', PStr ''abcdefghijklmnop''), (''signKey'', PStr ''qrstuvwxyz012345'')]"

definition known_texts :: "(string \<times> pyval) list" where
  "known_texts = [(keys_text, keys_json), (''12'', PNum 12)]"

definition is_main :: "http_request \<Rightarrow> bool" where
  "is_main r =
     (take (length BASE_URL) (rq_url r) = BASE_URL \<and> \<not> contains ''checkVersion'' (rq_url r))"

definition test_server ::
  "string \<Rightarrow> pyval \<Rightarrow> pyval list \<Rightarrow> http_request list \<Rightarrow> http_request \<Rightarrow> pyval option" where
  "test_server boot login_json script hist req =
     (if contains ''checkVersion'' (rq_url req) then
        Some (PDict [(''state'', PStr ''S''), (''payload'', PStr (rev boot))])
      else if rq_url req = USHER_URL @ ''system/encryptionKey'' then
        Some (PDict [(''data'', PDict [(''publicKey'', PStr ''PUBKEY''),
                                        (''versionPrefix'', PStr ''v1'')])])
      else if rq_url req = USHER_URL @ ''user/login'' then Some login_json
      else (let n = length (filter is_main hist)
            in if n < length script then Some (script ! n) else None))"

definition test_env :: "string \<Rightarrow> pyval \<Rightarrow> pyval list \<Rightarrow> env" where
  "test_env boot login_json script =
     \<lparr>server = test_server boot login_json script,
      clock = (\<lambda>n. 1600000000 + real n),
      md5_hex = (\<lambda>s. ''0123456789abcdef0123456789abcdef''),
      sha256_hex = (\<lambda>s. ''0123456789abcdef0123456789abcdef0123456789abcdef0123456789abcdef''),
      aes_encrypt_b64 = (\<lambda>buf key iv. case key of PStr k \<Rightarrow> Some (rev buf) | _ \<Rightarrow> None),
      aes_decrypt_str = (\<lambda>buf key iv. case key of PStr k \<Rightarrow> Some (rev buf) | _ \<Rightarrow> None),
      rsa_encrypt = (\<lambda>msg key. case key of PStr k \<Rightarrow> Some msg | _ \<Rightarrow> None),
      b64decode = (\<lambda>v. case v of PStr s \<Rightarrow> Some s | _ \<Rightarrow> None),
      b64encode = (\<lambda>s. s),
      json_loads = map_of known_texts,
      json_dumps = (\<lambda>d. ''{}''),
      urlencode = (\<lambda>q. concat (map (\<lambda>(k, v). k @ ''='' @ v) q))\<rparr>"

text \<open>The same with a \<^verbatim>\<open>json.loads\<close> that also knows a key response without \<^verbatim>\<open>signKey\<close>.\<close>

definition test_env_enc_only :: env where
  "test_env_enc_only =
     (test_env enc_only_text PNone [])
       \<lparr>json_loads :=
          map_of ((enc_only_text, PDict [(''encKey'', PStr ''abcdefghijklmnop'')]) # known_texts)\<rparr>"

text \<open>
  The same \<^verbatim>\<open>json.loads\<close> with a server that sends the complete key response: the
  bootstrap decryption accepts a key response without \<^verbatim>\<open>signKey\<close>, and the server never
  sends one.
\<close>

definition test_env_keys :: env where
  "test_env_keys =
     (test_env keys_text PNone [])
       \<lparr>json_loads :=
          map_of ((enc_only_text, PDict [(''encKey'', PStr ''abcdefghijklmnop'')]) # known_texts)\<rparr>"

text \<open>An error envelope, a login response, and the world and a connection to start from.\<close>

definition error_response :: "real \<Rightarrow> pyval" where
  "error_response code = PDict [(''state'', PStr ''F''), (''errorCode'', PNum code)]"

definition login_status :: "string \<Rightarrow> pyval" where
  "login_status st =
     PDict [(''status'', PStr st),
            (''data'', PDict [(''accessToken'', PStr ''tok''),
                              (''accessTokenExpirationTs'', PNum 1700000000)])]"

definition world0 :: world where
  "world0 = \<lparr>sent = [], ticks = 0\<rparr>"

definition conn0 :: conn where
  "conn0 = init ''user@example.com'' ''pw''"

definition conn_keys :: conn where
  "conn_keys = conn0\<lparr>enc_key := PStr ''abcdefghijklmnop'', sign_key := PStr ''qrstuvwxyz012345''\<rparr>"

lemmas model_defs =
  init_def time_time_def session_request_def get_timestamp_str_ms_def get_timestamp_str_def
  get_decryption_key_from_app_code_def get_temporary_sign_key_from_app_code_def
  get_payload_sign_def get_sign_from_timestamp_def encrypt_payload_using_key_def
  get_sign_from_payload_and_timestamp_def decrypt_payload_using_app_code_def
  decrypt_payload_using_key_def encrypt_payload_with_public_key_def getitem_def getitem2_def
  login_request_def login_response_def login_def ensure_token_is_valid_def
  handle_response_def base_headers_def sign_header_def send_api_request_def
  retry_message_def store_keys_def is_encryption_exn_def is_token_expired_exn_def
  py_add_def py_le_def num_of_def upper_def lower_def upper_char_def lower_char_def
  slice_def str_int_def py_round_def str_nat.simps
  APP_CODE_def BASE_URL_def USHER_URL_def IV_def SIGNATURE_MD5_def APP_PACKAGE_ID_def
  DEVICE_ID_def USER_AGENT_BASE_API_def USER_AGENT_USHER_API_def APP_OS_def APP_VERSION_def
  MAX_RETRIES_def

lemmas test_defs =
  keys_text_def enc_only_text_def keys_json_def known_texts_def is_main_def test_server_def
  test_env_def test_env_enc_only_def test_env_keys_def error_response_def login_status_def world0_def
  conn0_def conn_keys_def

section \<open>Auxiliary facts\<close>

subsection \<open>Strings and signatures\<close>

lemma upper_char_idem: "upper_char (upper_char ch) = upper_char ch"
  by (auto simp: upper_char_def split: option.splits if_splits)

lemma upper_idem: "upper (upper s) = upper s"
  by (simp add: upper_def upper_char_idem)

lemma length_upper: "length (upper s) = length s"
  by (simp add: upper_def)

lemma upper_char_hex:
  assumes "ch \<in> set ''0123456789abcdef''"
  shows "upper_char ch \<in> set ''0123456789ABCDEF''"
  using assms
  by (simp only: list.set) (elim insertE emptyE; simp add: upper_char_def)

lemma upper_hex:
  assumes "set s \<subseteq> set ''0123456789abcdef''"
  shows "set (upper s) \<subseteq> set ''0123456789ABCDEF''"
proof
  fix x
  assume "x \<in> set (upper s)"
  then obtain ch where ch: "ch \<in> set s" and x: "x = upper_char ch"
    unfolding upper_def by auto
  from ch assms have "ch \<in> set ''0123456789abcdef''"
    by (rule subsetD [rotated])
  then show "x \<in> set ''0123456789ABCDEF''"
    unfolding x by (rule upper_char_hex)
qed

lemma get_payload_sign_str:
  "get_payload_sign env s (PStr k) = Inr (upper (sha256_hex env (s @ k)))"
  by (simp add: get_payload_sign_def py_add_def)

lemma encrypt_depends_on_key:
  "enc_key c' = enc_key c \<Longrightarrow>
   encrypt_payload_using_key env c' payload = encrypt_payload_using_key env c payload"
  by (auto simp: encrypt_payload_using_key_def split: option.splits)

lemma upper_hex16: "upper ''0123456789abcdef'' = ''0123456789ABCDEF''"
  by (simp add: upper_def upper_char_def)

lemma upper_append: "upper (a @ b) = upper a @ upper b"
  by (simp add: upper_def)

lemma upper_test_digest:
  "upper ''0123456789abcdef0123456789abcdef0123456789abcdef0123456789abcdef'' =
     ''0123456789ABCDEF0123456789ABCDEF0123456789ABCDEF0123456789ABCDEF''"
proof -
  have "''0123456789abcdef0123456789abcdef0123456789abcdef0123456789abcdef'' =
    ''0123456789abcdef'' @ ''0123456789abcdef'' @ ''0123456789abcdef'' @ ''0123456789abcdef''"
    by simp
  then show ?thesis
    by (simp only: upper_append upper_hex16) simp
qed

subsection \<open>Cipher wrappers\<close>

lemma get_payload_sign_error: "get_payload_sign env s k = Inl e \<Longrightarrow> e = TypeError"
  by (auto simp: get_payload_sign_def py_add_def split: sum.splits pyval.splits option.splits)

lemma encrypt_missing_key:
  "absent_or_empty (enc_key c) \<Longrightarrow>
   encrypt_payload_using_key env c payload = Inl (MazdaException ''Missing encryption key'')"
  by (simp add: encrypt_payload_using_key_def absent_or_empty_def)

lemma encrypt_present_key:
  "\<not> absent_or_empty (enc_key c) \<Longrightarrow> encrypt_payload_using_key env c payload = Inl e \<Longrightarrow>
   e = CryptoError"
  by (auto simp: encrypt_payload_using_key_def absent_or_empty_def
           split: option.splits if_splits)

lemma decrypt_present_key:
  "\<not> absent_or_empty (enc_key c) \<Longrightarrow> decrypt_payload_using_key env c p = Inl e \<Longrightarrow>
   e = Base64Error \<or> e = CryptoError \<or> e = JSONDecodeError"
  by (auto simp: decrypt_payload_using_key_def absent_or_empty_def
           split: option.splits if_splits)

subsection \<open>Login\<close>

lemma session_request_sent:
  "session_request env w req = (r, w') \<Longrightarrow> sent w' = sent w @ [req] \<and> ticks w' = ticks w"
  by (auto simp: session_request_def split: option.splits)

lemma encrypt_with_public_key_sent:
  "encrypt_payload_with_public_key env pw k w = (r, w') \<Longrightarrow> sent w' = sent w"
  by (auto simp: encrypt_payload_with_public_key_def get_timestamp_str_def time_time_def
           split: option.splits prod.splits)

lemma login_request_sent:
  assumes "login_request env c w = (r, w')"
  shows "length (sent w) < length (sent w')"
proof -
  obtain r1 w1 where s1: "session_request env w
             \<lparr>rq_method = ''GET'', rq_url = USHER_URL @ ''system/encryptionKey'',
              rq_params = [(''appId'', ''MazdaApp''), (''locale'', ''en-US''),
                           (''deviceId'', ''ACCT1195961580''),
                           (''sdkVersion'', ''11.2.0000.002'')],
              rq_headers = [(''User-Agent'', PStr USER_AGENT_USHER_API)],
              rq_data = PNone, rq_json = PNone\<rparr> = (r1, w1)"
    by (cases "session_request env w
             \<lparr>rq_method = ''GET'', rq_url = USHER_URL @ ''system/encryptionKey'',
              rq_params = [(''appId'', ''MazdaApp''), (''locale'', ''en-US''),
                           (''deviceId'', ''ACCT1195961580''),
                           (''sdkVersion'', ''11.2.0000.002'')],
              rq_headers = [(''User-Agent'', PStr USER_AGENT_USHER_API)],
              rq_data = PNone, rq_json = PNone\<rparr>") blast
  from session_request_sent [OF s1] have l1: "length (sent w1) = Suc (length (sent w))"
    by simp
  from assms s1 have "length (sent w1) \<le> length (sent w')"
    by (auto simp: login_request_def split: sum.splits prod.splits
             dest!: session_request_sent encrypt_with_public_key_sent)
  with l1 show ?thesis by simp
qed

lemma login_sent:
  assumes "login env c w = (r, c', w')"
  shows "length (sent w) < length (sent w')"
proof -
  obtain r0 w0 where lr: "login_request env c w = (r0, w0)"
    by (cases "login_request env c w") blast
  with assms have "w' = w0"
    by (auto simp: login_def split: sum.splits prod.splits)
  with login_request_sent [OF lr] show ?thesis by simp
qed

lemma login_response_keys:
  "login_response c j = (r, c') \<Longrightarrow>
   enc_key c' = enc_key c \<and> sign_key c' = sign_key c \<and> email c' = email c \<and>
   password c' = password c"
  by (auto simp: login_response_def split: sum.splits if_splits)

lemma login_keys:
  "login env c w = (r, c', w') \<Longrightarrow> enc_key c' = enc_key c \<and> sign_key c' = sign_key c"
  by (auto simp: login_def split: sum.splits prod.splits dest: login_response_keys)

lemma login_response_not_ok:
  "getitem j ''status'' = Inr st \<Longrightarrow> st \<noteq> PStr ''OK'' \<Longrightarrow>
   snd (login_response c j) = c \<and> (\<exists>e. fst (login_response c j) = Inl e)"
  by (simp add: login_response_def)

lemma login_response_changed:
  "login_response c j = (r, c') \<Longrightarrow> c' \<noteq> c \<Longrightarrow> getitem j ''status'' = Inr (PStr ''OK'')"
  by (auto simp: login_response_def split: sum.splits if_splits)

subsection \<open>The pipeline\<close>

lemma retry_message_pos: "0 < n \<Longrightarrow> retry_message n = Inl TypeError"
  by (simp add: retry_message_def py_add_def num_of_def)

lemma retry_message_zero: "retry_message 0 = Inr (PStr '''')"
  by (simp add: retry_message_def)

lemma api_request_retry_Suc:
  "api_request_retry env (Suc depth) method uri query_dict body_dict needs_keys needs_auth
     num_retries c w =
   (if MAX_RETRIES < num_retries then Some (Inl retries_exceeded, c, w)
    else (case prepare env depth needs_keys needs_auth c w of
            None \<Rightarrow> None
          | Some (Inl e, c2, w2) \<Rightarrow> Some (Inl e, c2, w2)
          | Some (Inr u, c2, w2) \<Rightarrow>
              (case retry_message num_retries of
                 Inl e \<Rightarrow> Some (Inl e, c2, w2)
               | Inr msg \<Rightarrow>
                   (case send_api_request env method uri query_dict body_dict
                           needs_keys needs_auth c2 w2 of
                      (Inr v, w3) \<Rightarrow> Some (Inr v, c2, w3)
                    | (Inl e, w3) \<Rightarrow>
                        if is_encryption_exn e then
                          (case retrieve_keys env depth c2 w3 of
                             None \<Rightarrow> None
                           | Some (Inl e', c4, w4) \<Rightarrow> Some (Inl e', c4, w4)
                           | Some (Inr u'', c4, w4) \<Rightarrow>
                               api_request_retry env depth method uri query_dict body_dict
                                 needs_keys needs_auth (num_retries + 1) c4 w4)
                        else if is_token_expired_exn e then
                          (case login env c2 w3 of
                             (Inl e', c4, w4) \<Rightarrow> Some (Inl e', c4, w4)
                           | (Inr u'', c4, w4) \<Rightarrow>
                               api_request_retry env depth method uri query_dict body_dict
                                 needs_keys needs_auth (num_retries + 1) c4 w4)
                        else Some (Inl e, c2, w3)))))"
  by (simp add: prepare_def retries_exceeded_def split: option.splits sum.splits prod.splits)

lemma retrieve_keys_eq:
  "retrieve_keys env depth c w =
     (case api_request_retry env depth ''POST'' ''service/checkVersion'' [] [] False False 0 c w of
        None \<Rightarrow> None
      | Some (Inl e, c', w') \<Rightarrow> Some (Inl e, c', w')
      | Some (Inr response, c', w') \<Rightarrow>
          (case store_keys c' response of (r, c'') \<Rightarrow> Some (r, c'', w')))"
  by simp

declare api_request.simps [simp del]
declare retrieve_keys.simps [simp del]
declare ensure_keys_present.simps [simp del]


declare api_request_retry.simps(2) [simp del]

lemma retry_never_succeeds:
  assumes "0 < num_retries"
  shows "api_request_retry env depth method uri query_dict body_dict needs_keys needs_auth
           num_retries c w \<noteq> Some (Inr v, c', w')"
proof (cases depth)
  case 0
  then show ?thesis by simp
next
  case (Suc d)
  with assms show ?thesis
    by (simp add: api_request_retry_Suc retry_message_pos
          split: option.splits sum.splits prod.splits)
qed

lemma retry_type_error:
  assumes "0 < num_retries" and "num_retries \<le> MAX_RETRIES"
    and "prepare env depth needs_keys needs_auth c w = Some (Inr u, c2, w2)"
  shows "api_request_retry env (Suc depth) method uri query_dict body_dict needs_keys
           needs_auth num_retries c w = Some (Inl TypeError, c2, w2)"
  using assms by (simp add: api_request_retry_Suc retry_message_pos)

lemma first_attempt:
  assumes "prepare env depth needs_keys needs_auth c w = Some (Inr u, c2, w2)"
    and "send_api_request env method uri query_dict body_dict needs_keys needs_auth c2 w2 =
           (r, w3)"
  shows "api_request_retry env (Suc depth) method uri query_dict body_dict needs_keys
           needs_auth 0 c w =
         (case r of
            Inr v \<Rightarrow> Some (Inr v, c2, w3)
          | Inl e \<Rightarrow>
              if is_encryption_exn e then
                (case retrieve_keys env depth c2 w3 of
                   None \<Rightarrow> None
                 | Some (Inl e', c4, w4) \<Rightarrow> Some (Inl e', c4, w4)
                 | Some (Inr u'', c4, w4) \<Rightarrow>
                     api_request_retry env depth method uri query_dict body_dict
                       needs_keys needs_auth (0 + 1) c4 w4)
              else if is_token_expired_exn e then
                (case login env c2 w3 of
                   (Inl e', c4, w4) \<Rightarrow> Some (Inl e', c4, w4)
                 | (Inr u'', c4, w4) \<Rightarrow>
                     api_request_retry env depth method uri query_dict body_dict
                       needs_keys needs_auth (0 + 1) c4 w4)
              else Some (Inl e, c2, w3))"
  using assms
  by (simp add: api_request_retry_Suc retry_message_zero MAX_RETRIES_def split: sum.splits)

lemma recovery_never_succeeds:
  assumes "prepare env depth needs_keys needs_auth c w = Some (Inr u, c2, w2)"
    and "send_api_request env method uri query_dict body_dict needs_keys needs_auth c2 w2 =
           (Inl e, w3)"
  shows "api_request_retry env (Suc depth) method uri query_dict body_dict needs_keys
           needs_auth 0 c w \<noteq> Some (Inr v, c', w')"
  unfolding first_attempt [OF assms]
  by (simp add: retry_never_succeeds split: option.splits sum.splits prod.splits)

lemma first_attempt_success:
  assumes "api_request_retry env depth method uri query_dict body_dict needs_keys needs_auth
             0 c w = Some (Inr v, c', w')"
  shows "\<exists>d u w2. depth = Suc d \<and> prepare env d needs_keys needs_auth c w = Some (Inr u, c', w2)
           \<and> send_api_request env method uri query_dict body_dict needs_keys needs_auth c' w2 =
               (Inr v, w')"
proof (cases depth)
  case 0
  with assms show ?thesis by simp
next
  case (Suc d)
  from assms Suc obtain u c2 w2 where p: "prepare env d needs_keys needs_auth c w = Some (Inr u, c2, w2)"
    by (auto simp: api_request_retry_Suc split: option.splits sum.splits prod.splits if_splits)
  obtain r w3 where s: "send_api_request env method uri query_dict body_dict needs_keys
      needs_auth c2 w2 = (r, w3)"
    by (cases "send_api_request env method uri query_dict body_dict needs_keys
      needs_auth c2 w2") blast
  show ?thesis
  proof (cases r)
    case (Inl e)
    with recovery_never_succeeds [OF p] s assms Suc show ?thesis by blast
  next
    case (Inr v')
    with first_attempt [OF p s] assms Suc have "v' = v" "c2 = c'" "w3 = w'" by simp_all
    with p s Inr Suc show ?thesis by blast
  qed
qed

lemma prepare_plain: "prepare env depth False False c w = Some (Inr (), c, w)"
  by (simp add: prepare_def)

lemma send_api_request_success:
  assumes "send_api_request env method uri query_dict body_dict needs_keys needs_auth c w =
             (Inr v, w')"
  shows "\<exists>req j. sent w' = sent w @ [req] \<and> rq_url req = BASE_URL @ uri \<and>
           rq_method req = method \<and> handle_response env uri c j = Inr v"
  using assms
  by (auto simp: send_api_request_def get_timestamp_str_ms_def time_time_def Let_def
                 session_request_def
           split: sum.splits prod.splits option.splits if_splits)

lemma handle_response_check_version:
  "contains ''checkVersion'' uri \<Longrightarrow> handle_response env uri c j = Inr v \<Longrightarrow>
   \<exists>payload. decrypt_payload_using_app_code env payload = Inr v"
  by (auto simp: handle_response_def split: sum.splits if_splits)

lemma store_keys_token:
  "store_keys c response = (r, c') \<Longrightarrow>
   access_token c' = access_token c \<and>
   access_token_expiration_ts c' = access_token_expiration_ts c \<and>
   email c' = email c \<and> password c' = password c"
  by (auto simp: store_keys_def split: sum.splits)

lemma retrieve_keys_success:
  assumes "retrieve_keys env depth c w = Some (Inr u, c', w')"
  shows "\<exists>req response. sent w' = sent w @ [req] \<and>
           rq_url req = BASE_URL @ ''service/checkVersion'' \<and> rq_method req = ''POST'' \<and>
           (\<exists>payload. decrypt_payload_using_app_code env payload = Inr response) \<and>
           store_keys c response = (Inr u, c')"
proof -
  from assms obtain response c1 where
    a: "api_request_retry env depth ''POST'' ''service/checkVersion'' [] [] False False 0 c w =
          Some (Inr response, c1, w')"
    and st: "store_keys c1 response = (Inr u, c')"
    by (auto simp: retrieve_keys_eq split: option.splits sum.splits prod.splits)
  from first_attempt_success [OF a] obtain w2 where
    "send_api_request env ''POST'' ''service/checkVersion'' [] [] False False c1 w2 =
       (Inr response, w')"
    and "Some (Inr (), c, w) = Some (Inr (), c1, w2)"
    by (auto simp: prepare_plain)
  then have s: "send_api_request env ''POST'' ''service/checkVersion'' [] [] False False c w =
       (Inr response, w')" and c1: "c1 = c"
    by simp_all
  from send_api_request_success [OF s] obtain req j where
    r: "sent w' = sent w @ [req]" "rq_url req = BASE_URL @ ''service/checkVersion''"
       "rq_method req = ''POST''"
    and h: "handle_response env ''service/checkVersion'' c j = Inr response"
    by blast
  have "contains ''checkVersion'' ''service/checkVersion''" by simp
  from handle_response_check_version [OF this h] r st c1 show ?thesis by blast
qed

lemmas run_defs = api_request.simps api_request_retry.simps ensure_keys_present.simps
  retrieve_keys.simps prepare_def retries_exceeded_def

subsection \<open>The keys\<close>

lemma ensure_token_keys:
  "ensure_token_is_valid env c w = (r, c', w') \<Longrightarrow>
   enc_key c' = enc_key c \<and> sign_key c' = sign_key c"
  by (auto simp: ensure_token_is_valid_def time_time_def
           split: if_splits option.splits bool.splits dest: login_keys)

lemma store_keys_together:
  assumes "key_response_ok response" and "keys_together c"
    and "store_keys c response = (r, c')"
  shows "keys_together c'"
  using assms
  by (auto simp: key_response_ok_def store_keys_def keys_together_def split: sum.splits)

lemma send_api_request_answer:
  assumes "send_api_request env meth uri query_dict body_dict needs_keys needs_auth c w =
             (Inr v, w')"
  shows "\<exists>req j. sent w' = sent w @ [req] \<and> rq_url req = BASE_URL @ uri \<and>
           rq_method req = meth \<and> server env (sent w) req = Some j \<and>
           handle_response env uri c j = Inr v"
  using assms
  by (auto simp: send_api_request_def get_timestamp_str_ms_def time_time_def Let_def
                 session_request_def
           split: sum.splits prod.splits option.splits if_splits)

lemma handle_response_key_response:
  assumes "handle_response env ''service/checkVersion'' c j = Inr v"
  shows "getitem j ''state'' = Inr (PStr ''S'') \<and>
         (\<exists>payload. getitem j ''payload'' = Inr payload \<and>
                    decrypt_payload_using_app_code env payload = Inr v)"
  using assms by (auto simp: handle_response_def split: sum.splits if_splits)

text \<open>
  The response that \<^verbatim>\<open>__retrieve_keys\<close> stores is carried by an answer of the server to a
  key-retrieval request.
\<close>

lemma key_retrieval_response:
  assumes ok: "key_responses_ok env"
    and run: "api_request_retry env depth ''POST'' ''service/checkVersion'' [] [] False False
                0 c w = Some (Inr v, c', w')"
  shows "key_response_ok v"
proof -
  from first_attempt_success [OF run] obtain w2 where
    s: "send_api_request env ''POST'' ''service/checkVersion'' [] [] False False c' w2 =
          (Inr v, w')"
    by blast
  from send_api_request_answer [OF s] obtain req j where
    r: "rq_url req = BASE_URL @ ''service/checkVersion''" "rq_method req = ''POST''"
       "server env (sent w2) req = Some j"
    and h: "handle_response env ''service/checkVersion'' c' j = Inr v"
    by blast
  from handle_response_key_response [OF h] obtain payload where
    p: "getitem j ''state'' = Inr (PStr ''S'')" "getitem j ''payload'' = Inr payload"
       "decrypt_payload_using_app_code env payload = Inr v"
    by blast
  from ok r p show ?thesis
    unfolding key_responses_ok_def by blast
qed

text \<open>
  One level of the pipeline keeps a property of the connection that the preparation, the
  key retrieval, the login and the level below keep.
\<close>

lemma attempt_preserves:
  assumes pr: "\<And>c0 w0 r0 c1 w1. P c0 \<Longrightarrow>
             prepare env d needs_keys needs_auth c0 w0 = Some (r0, c1, w1) \<Longrightarrow> P c1"
    and rk: "\<And>c0 w0 r0 c1 w1. P c0 \<Longrightarrow> retrieve_keys env d c0 w0 = Some (r0, c1, w1) \<Longrightarrow> P c1"
    and lg: "\<And>c0 w0 r0 c1 w1. P c0 \<Longrightarrow> login env c0 w0 = (r0, c1, w1) \<Longrightarrow> P c1"
    and ih: "\<And>n c0 w0 r0 c1 w1. P c0 \<Longrightarrow>
             api_request_retry env d method uri query_dict body_dict needs_keys needs_auth
               n c0 w0 = Some (r0, c1, w1) \<Longrightarrow> P c1"
    and start: "P c"
    and run: "api_request_retry env (Suc d) method uri query_dict body_dict needs_keys
                needs_auth num_retries c w = Some (r, c', w')"
  shows "P c'"
proof (cases "MAX_RETRIES < num_retries")
  case True
  with run start show ?thesis
    by (simp add: api_request_retry_Suc)
next
  case small: False
  show ?thesis
  proof (cases "prepare env d needs_keys needs_auth c w")
    case None
    with run small show ?thesis
      by (simp add: api_request_retry_Suc)
  next
    case (Some x)
    then obtain r1 c2 w2 where p: "prepare env d needs_keys needs_auth c w = Some (r1, c2, w2)"
      by (cases x) auto
    from pr [OF start p] have k2: "P c2" .
    show ?thesis
    proof (cases r1)
      case (Inl e)
      with run small p k2 show ?thesis
        by (simp add: api_request_retry_Suc)
    next
      case (Inr u)
      note r1 = this
      show ?thesis
      proof (cases "retry_message num_retries")
        case (Inl e)
        with run small p r1 k2 show ?thesis
          by (simp add: api_request_retry_Suc)
      next
        case (Inr msg)
        note msg = this
        obtain r3 w3 where s: "send_api_request env method uri query_dict body_dict needs_keys
            needs_auth c2 w2 = (r3, w3)"
          by (cases "send_api_request env method uri query_dict body_dict needs_keys
            needs_auth c2 w2") blast
        show ?thesis
        proof (cases r3)
          case (Inr v)
          with run small p r1 msg s k2 show ?thesis
            by (simp add: api_request_retry_Suc)
        next
          case (Inl e)
          note r3 = this
          show ?thesis
          proof (cases "is_encryption_exn e")
            case True
            show ?thesis
            proof (cases "retrieve_keys env d c2 w3")
              case None
              with run small p r1 msg s r3 True show ?thesis
                by (simp add: api_request_retry_Suc)
            next
              case (Some y)
              then obtain r4 c4 w4 where q: "retrieve_keys env d c2 w3 = Some (r4, c4, w4)"
                by (cases y) auto
              from rk [OF k2 q] have k4: "P c4" .
              show ?thesis
              proof (cases r4)
                case (Inl e')
                with run small p r1 msg s r3 True q k4 show ?thesis
                  by (simp add: api_request_retry_Suc)
              next
                case (Inr u')
                with run small p r1 msg s r3 True q
                have "api_request_retry env d method uri query_dict body_dict needs_keys
                    needs_auth (num_retries + 1) c4 w4 = Some (r, c', w')"
                  by (simp add: api_request_retry_Suc)
                with k4 show ?thesis by (rule ih)
              qed
            qed
          next
            case False
            note ne = this
            show ?thesis
            proof (cases "is_token_expired_exn e")
              case True
              obtain r4 c4 w4 where q: "login env c2 w3 = (r4, c4, w4)"
                by (cases "login env c2 w3") blast
              from lg [OF k2 q] have k4: "P c4" .
              show ?thesis
              proof (cases r4)
                case (Inl e')
                with run small p r1 msg s r3 ne True q k4 show ?thesis
                  by (simp add: api_request_retry_Suc)
              next
                case (Inr u')
                with run small p r1 msg s r3 ne True q
                have "api_request_retry env d method uri query_dict body_dict needs_keys
                    needs_auth (num_retries + 1) c4 w4 = Some (r, c', w')"
                  by (simp add: api_request_retry_Suc)
                with k4 show ?thesis by (rule ih)
              qed
            next
              case False
              with run small p r1 msg s r3 ne k2 show ?thesis
                by (simp add: api_request_retry_Suc)
            qed
          qed
        qed
      qed
    qed
  qed
qed

lemma retrieve_keys_together:
  assumes ok: "key_responses_ok env"
    and ih: "\<And>c0 w0 r0 c1 w1. keys_together c0 \<Longrightarrow>
             api_request_retry env d ''POST'' ''service/checkVersion'' [] [] False False
               0 c0 w0 = Some (r0, c1, w1) \<Longrightarrow> keys_together c1"
    and start: "keys_together c"
    and run: "retrieve_keys env d c w = Some (r, c', w')"
  shows "keys_together c'"
proof (cases "api_request_retry env d ''POST'' ''service/checkVersion'' [] [] False False 0 c w")
  case None
  with run show ?thesis
    by (simp add: retrieve_keys_eq)
next
  case (Some x)
  then obtain r1 c1 w1 where
    a: "api_request_retry env d ''POST'' ''service/checkVersion'' [] [] False False 0 c w =
          Some (r1, c1, w1)"
    by (cases x) auto
  from ih [OF start a] have k1: "keys_together c1" .
  show ?thesis
  proof (cases r1)
    case (Inl e)
    with run a k1 show ?thesis
      by (simp add: retrieve_keys_eq)
  next
    case (Inr response)
    from ok a [unfolded Inr] have kr: "key_response_ok response"
      by (rule key_retrieval_response)
    from run a Inr have st: "store_keys c1 response = (r, c')"
      by (auto simp: retrieve_keys_eq split: prod.splits)
    from kr k1 st show ?thesis
      by (rule store_keys_together)
  qed
qed

lemma ensure_keys_present_eq:
  "ensure_keys_present env depth c w =
     (if enc_key c = PNone \<or> sign_key c = PNone then retrieve_keys env depth c w
      else Some (Inr (), c, w))"
  by (simp add: ensure_keys_present.simps)

lemma prepare_together:
  assumes rk: "\<And>c0 w0 r0 c1 w1. keys_together c0 \<Longrightarrow>
             retrieve_keys env d c0 w0 = Some (r0, c1, w1) \<Longrightarrow> keys_together c1"
    and start: "keys_together c"
    and run: "prepare env d needs_keys needs_auth c w = Some (r, c', w')"
  shows "keys_together c'"
proof -
  have ek: "keys_together c1"
    if "(if needs_keys then ensure_keys_present env d c w else Some (Inr (), c, w)) =
          Some (r1, c1, w1)" for r1 c1 w1
    using that start rk [OF start, of w r1 c1 w1]
    by (auto simp: ensure_keys_present_eq split: if_splits)
  from run obtain r1 c1 w1 where
    a: "(if needs_keys then ensure_keys_present env d c w else Some (Inr (), c, w)) =
          Some (r1, c1, w1)"
    and b: "(r, c', w') = (r1, c1, w1) \<or>
            (r, c', w') = (if needs_auth then ensure_token_is_valid env c1 w1
                           else (Inr (), c1, w1))"
    unfolding prepare_def
    by (cases "if needs_keys then ensure_keys_present env d c w else Some (Inr (), c, w)")
       (auto split: sum.splits)
  from ek [OF a] have k1: "keys_together c1" .
  from b k1 show ?thesis
    using ensure_token_keys [of env c1 w1 r c' w']
    by (auto simp: keys_together_def split: if_splits)
qed

lemma login_together:
  "keys_together c \<Longrightarrow> login env c w = (r, c', w') \<Longrightarrow> keys_together c'"
  using login_keys [of env c w r c' w'] by (simp add: keys_together_def)

lemma pipeline_together:
  assumes ok: "key_responses_ok env"
  shows "keys_together c \<Longrightarrow>
         api_request_retry env depth meth uri query_dict body_dict needs_keys needs_auth
           num_retries c w = Some (r, c', w') \<Longrightarrow> keys_together c'"
proof (induction depth arbitrary: meth uri query_dict body_dict needs_keys needs_auth
    num_retries c w r c' w')
  case 0
  then show ?case by simp
next
  case (Suc d)
  have rk: "keys_together c1"
    if "keys_together c0" and "retrieve_keys env d c0 w0 = Some (r0, c1, w1)"
    for c0 w0 r0 c1 w1
    using ok Suc.IH that by (rule retrieve_keys_together)
  have pr: "keys_together c1"
    if "keys_together c0" and "prepare env d needs_keys needs_auth c0 w0 = Some (r0, c1, w1)"
    for c0 w0 r0 c1 w1
    using rk that by (rule prepare_together)
  show ?case
    using pr rk login_together Suc.IH Suc.prems
    by (rule attempt_preserves [where P = keys_together])
qed


lemma test_key_responses_ok: "key_responses_ok test_env_keys"
  by (auto simp: key_responses_ok_def test_env_keys_def test_env_def test_server_def
        BASE_URL_def getitem_def decrypt_payload_using_app_code_def known_texts_def
        keys_text_def enc_only_text_def key_response_ok_def keys_json_def
           split: option.splits pyval.splits if_splits)

section \<open>The properties\<close>

subsection \<open>The retry budget\<close>

text \<open>
  Claim C1, as stated, fails. Against a server that would answer the first four
  attempts with 600001, 600002, 600001, 600002, the pipeline started on a fresh
  connection fetches the keys, sends the request once, fetches the keys again after
  the 600001 and then raises \<^verbatim>\<open>TypeError\<close> on the second attempt, not the
  retry-budget failure. Nor is the ceiling one of four attempts: the test is
  \<^verbatim>\<open>num_retries > MAX_RETRIES\<close>, so an invocation with the counter at 4 is not stopped by
  it (it gets as far as the retry message).
\<close>

theorem alternating_errors_counterexample:
  "map_option (\<lambda>(r, c, w). (r, map rq_url (sent w)))
     (api_request
        (test_env keys_text (login_status ''OK'')
           [error_response 600001, error_response 600002, error_response 600001,
            error_response 600002])
        (Suc (Suc (Suc 0))) ''GET'' ''vehicle/status'' [] [] True False conn0 world0) =
   Some (Inl TypeError,
         [BASE_URL @ ''service/checkVersion'', BASE_URL @ ''vehicle/status'',
          BASE_URL @ ''service/checkVersion''])
   \<and> TypeError \<noteq> retries_exceeded
   \<and> api_request_retry (test_env keys_text (login_status ''OK'') []) (Suc 0) ''GET''
       ''vehicle/status'' [] [] False False 4 conn_keys world0 =
     Some (Inl TypeError, conn_keys, world0)"
  by (simp add: model_defs test_defs run_defs)

text \<open>
  Claim C1, amended. An invocation of \<^verbatim>\<open>__api_request_retry\<close> whose counter exceeds
  \<^verbatim>\<open>MAX_RETRIES = 4\<close> raises the retry-budget failure at once: nothing is sent and nothing
  changes. The counter is shared by the two recoveries: whenever an attempt with a
  counter of at most \<^verbatim>\<open>MAX_RETRIES\<close> gets to send its request and the request fails with
  the encryption rejection (600001), the pipeline retrieves the keys and re-invokes
  itself with the counter plus one; when it fails with the token expiration (600002),
  the pipeline logs in and re-invokes itself with the counter plus one; when the request
  succeeds, its response is returned. (What a re-invocation does at its retry message is
  left open here.)
\<close>

theorem retry_budget:
  "(MAX_RETRIES < num_retries \<longrightarrow>
      api_request_retry env (Suc depth) method uri query_dict body_dict needs_keys needs_auth
        num_retries c w = Some (Inl retries_exceeded, c, w))
   \<and> (num_retries \<le> MAX_RETRIES \<and>
        prepare env depth needs_keys needs_auth c w = Some (Inr u, c2, w2) \<and>
        retry_message num_retries = Inr msg \<and>
        send_api_request env method uri query_dict body_dict needs_keys needs_auth c2 w2 =
          (Inl e, w3) \<and> is_encryption_exn e \<longrightarrow>
      api_request_retry env (Suc depth) method uri query_dict body_dict needs_keys needs_auth
        num_retries c w =
      (case retrieve_keys env depth c2 w3 of
         None \<Rightarrow> None
       | Some (Inl e', c4, w4) \<Rightarrow> Some (Inl e', c4, w4)
       | Some (Inr x, c4, w4) \<Rightarrow>
           api_request_retry env depth method uri query_dict body_dict needs_keys needs_auth
             (num_retries + 1) c4 w4))
   \<and> (num_retries \<le> MAX_RETRIES \<and>
        prepare env depth needs_keys needs_auth c w = Some (Inr u, c2, w2) \<and>
        retry_message num_retries = Inr msg \<and>
        send_api_request env method uri query_dict body_dict needs_keys needs_auth c2 w2 =
          (Inl e, w3) \<and> is_token_expired_exn e \<longrightarrow>
      api_request_retry env (Suc depth) method uri query_dict body_dict needs_keys needs_auth
        num_retries c w =
      (case login env c2 w3 of
         (Inl e', c4, w4) \<Rightarrow> Some (Inl e', c4, w4)
       | (Inr x, c4, w4) \<Rightarrow>
           api_request_retry env depth method uri query_dict body_dict needs_keys needs_auth
             (num_retries + 1) c4 w4))
   \<and> (num_retries \<le> MAX_RETRIES \<and>
        prepare env depth needs_keys needs_auth c w = Some (Inr u, c2, w2) \<and>
        retry_message num_retries = Inr msg \<and>
        send_api_request env method uri query_dict body_dict needs_keys needs_auth c2 w2 =
          (Inr v, w3) \<longrightarrow>
      api_request_retry env (Suc depth) method uri query_dict body_dict needs_keys needs_auth
        num_retries c w = Some (Inr v, c2, w3))"
proof (intro conjI impI)
  assume "MAX_RETRIES < num_retries"
  then show "api_request_retry env (Suc depth) method uri query_dict body_dict needs_keys
      needs_auth num_retries c w = Some (Inl retries_exceeded, c, w)"
    by (simp add: api_request_retry_Suc)
next
  assume "num_retries \<le> MAX_RETRIES \<and>
        prepare env depth needs_keys needs_auth c w = Some (Inr u, c2, w2) \<and>
        retry_message num_retries = Inr msg \<and>
        send_api_request env method uri query_dict body_dict needs_keys needs_auth c2 w2 =
          (Inl e, w3) \<and> is_encryption_exn e"
  then show "api_request_retry env (Suc depth) method uri query_dict body_dict needs_keys
      needs_auth num_retries c w =
      (case retrieve_keys env depth c2 w3 of
         None \<Rightarrow> None
       | Some (Inl e', c4, w4) \<Rightarrow> Some (Inl e', c4, w4)
       | Some (Inr x, c4, w4) \<Rightarrow>
           api_request_retry env depth method uri query_dict body_dict needs_keys needs_auth
             (num_retries + 1) c4 w4)"
    by (simp add: api_request_retry_Suc)
next
  assume a: "num_retries \<le> MAX_RETRIES \<and>
        prepare env depth needs_keys needs_auth c w = Some (Inr u, c2, w2) \<and>
        retry_message num_retries = Inr msg \<and>
        send_api_request env method uri query_dict body_dict needs_keys needs_auth c2 w2 =
          (Inl e, w3) \<and> is_token_expired_exn e"
  then have "\<not> is_encryption_exn e"
    by (auto simp: is_encryption_exn_def is_token_expired_exn_def split: exn.splits)
  with a show "api_request_retry env (Suc depth) method uri query_dict body_dict needs_keys
      needs_auth num_retries c w =
      (case login env c2 w3 of
         (Inl e', c4, w4) \<Rightarrow> Some (Inl e', c4, w4)
       | (Inr x, c4, w4) \<Rightarrow>
           api_request_retry env depth method uri query_dict body_dict needs_keys needs_auth
             (num_retries + 1) c4 w4)"
    by (simp add: api_request_retry_Suc)
next
  assume "num_retries \<le> MAX_RETRIES \<and>
        prepare env depth needs_keys needs_auth c w = Some (Inr u, c2, w2) \<and>
        retry_message num_retries = Inr msg \<and>
        send_api_request env method uri query_dict body_dict needs_keys needs_auth c2 w2 =
          (Inr v, w3)"
  then show "api_request_retry env (Suc depth) method uri query_dict body_dict needs_keys
      needs_auth num_retries c w = Some (Inr v, c2, w3)"
    by (simp add: api_request_retry_Suc)
qed

theorem retry_budget_witness:
  "api_request_retry (test_env keys_text PNone []) (Suc 0) ''GET'' ''vehicle/status'' [] []
     True False 5 conn0 world0 = Some (Inl retries_exceeded, conn0, world0)
   \<and> map_option (\<lambda>(r, c, w). (r, access_token c, map rq_url (sent w)))
       (api_request_retry (test_env keys_text (login_status ''OK'') [error_response 600002])
          (Suc (Suc 0)) ''GET'' ''vehicle/status'' [] [] True False 0 conn_keys world0) =
     Some (Inl TypeError, PStr ''tok'',
           [BASE_URL @ ''vehicle/status'', USHER_URL @ ''system/encryptionKey'',
            USHER_URL @ ''user/login''])"
proof -
  have "MAX_RETRIES < 5"
    by (simp add: MAX_RETRIES_def)
  with retry_budget [of 5 "test_env keys_text PNone []" 0 "''GET''" "''vehicle/status''"
      "[]" "[]" True False conn0 world0]
  have first: "api_request_retry (test_env keys_text PNone []) (Suc 0) ''GET''
      ''vehicle/status'' [] [] True False 5 conn0 world0 =
      Some (Inl retries_exceeded, conn0, world0)"
    by blast
  let ?env = "test_env keys_text (login_status ''OK'') [error_response 600002]"
  let ?send = "send_api_request ?env ''GET'' ''vehicle/status'' [] [] True False conn_keys world0"
  have n: "0 \<le> MAX_RETRIES" by simp
  have p: "prepare ?env (Suc 0) True False conn_keys world0 = Some (Inr (), conn_keys, world0)"
    by (simp add: prepare_def ensure_keys_present.simps conn_keys_def)
  have m: "retry_message 0 = Inr (PStr [])"
    by (rule retry_message_zero)
  have "fst ?send = Inl (MazdaTokenExpiredException ''Token expired'')"
    by (simp add: model_defs test_defs)
  then have s: "?send = (Inl (MazdaTokenExpiredException ''Token expired''), snd ?send)"
    by (metis prod.collapse)
  have t: "is_token_expired_exn (MazdaTokenExpiredException ''Token expired'')"
    by (simp add: is_token_expired_exn_def)
  from retry_budget [of 0 ?env "Suc 0" "''GET''" "''vehicle/status''" "[]" "[]" True False
      conn_keys world0 "()" conn_keys world0 "PStr []"
      "MazdaTokenExpiredException ''Token expired''" "snd ?send"] n p m s t
  have eq: "api_request_retry ?env (Suc (Suc 0)) ''GET'' ''vehicle/status'' [] [] True False
      0 conn_keys world0 =
      (case login ?env conn_keys (snd ?send) of
         (Inl e', c4, w4) \<Rightarrow> Some (Inl e', c4, w4)
       | (Inr x, c4, w4) \<Rightarrow>
           api_request_retry ?env (Suc 0) ''GET'' ''vehicle/status'' [] [] True False
             (0 + 1) c4 w4)"
    by blast
  have second: "map_option (\<lambda>(r, c, w). (r, access_token c, map rq_url (sent w)))
       (api_request_retry ?env (Suc (Suc 0)) ''GET'' ''vehicle/status'' [] [] True False 0
          conn_keys world0) =
     Some (Inl TypeError, PStr ''tok'',
           [BASE_URL @ ''vehicle/status'', USHER_URL @ ''system/encryptionKey'',
            USHER_URL @ ''user/login''])"
    unfolding eq by (simp add: model_defs test_defs run_defs)
  from first second show ?thesis by (rule conjI)
qed

subsection \<open>The retried attempt\<close>

text \<open>
  Claim C2. For a retry (\<^verbatim>\<open>num_retries >= 1\<close>) the expression
  \<^verbatim>\<open>" attempt #" + (num_retries + 1)\<close> adds an integer to a string and raises
  \<^verbatim>\<open>TypeError\<close>. So an invocation of \<^verbatim>\<open>__api_request_retry\<close> with a counter of at least 1
  does nothing beyond the ceiling test and the preparation (the key and token checks):
  past the ceiling it raises the retry-budget failure; otherwise it passes on the
  exception of the preparation or, when the preparation completes, raises \<^verbatim>\<open>TypeError\<close>
  in exactly the state the preparation left. The retried request is never sent. No
  invocation with a counter of at least 1 ever returns a response, at any depth of
  calls; and a first attempt whose request failed never ends in a response, so no
  recovery is followed by a successfully re-sent request.
\<close>

theorem retry_raises_type_error:
  "(0 < num_retries \<longrightarrow> retry_message num_retries = Inl TypeError)
   \<and> (0 < num_retries \<longrightarrow>
        api_request_retry env (Suc depth) method uri query_dict body_dict needs_keys needs_auth
          num_retries c w =
        (if MAX_RETRIES < num_retries then Some (Inl retries_exceeded, c, w)
         else (case prepare env depth needs_keys needs_auth c w of
                 None \<Rightarrow> None
               | Some (Inl e, c2, w2) \<Rightarrow> Some (Inl e, c2, w2)
               | Some (Inr u, c2, w2) \<Rightarrow> Some (Inl TypeError, c2, w2))))
   \<and> (0 < num_retries \<longrightarrow>
        api_request_retry env depth' method uri query_dict body_dict needs_keys needs_auth
          num_retries c w \<noteq> Some (Inr v, c', w'))
   \<and> (prepare env depth needs_keys needs_auth c w = Some (Inr u', c2', w2') \<and>
        send_api_request env method uri query_dict body_dict needs_keys needs_auth c2' w2' =
          (Inl e', w3) \<longrightarrow>
        api_request_retry env (Suc depth) method uri query_dict body_dict needs_keys needs_auth
          0 c w \<noteq> Some (Inr v, c', w'))"
proof (intro conjI impI)
  assume "0 < num_retries"
  then show "retry_message num_retries = Inl TypeError"
    by (rule retry_message_pos)
next
  assume "0 < num_retries"
  then show "api_request_retry env (Suc depth) method uri query_dict body_dict needs_keys
      needs_auth num_retries c w =
        (if MAX_RETRIES < num_retries then Some (Inl retries_exceeded, c, w)
         else (case prepare env depth needs_keys needs_auth c w of
                 None \<Rightarrow> None
               | Some (Inl e, c2, w2) \<Rightarrow> Some (Inl e, c2, w2)
               | Some (Inr u, c2, w2) \<Rightarrow> Some (Inl TypeError, c2, w2)))"
    by (simp add: api_request_retry_Suc retry_message_pos
          split: option.splits sum.splits prod.splits)
next
  assume "0 < num_retries"
  then show "api_request_retry env depth' method uri query_dict body_dict needs_keys needs_auth
          num_retries c w \<noteq> Some (Inr v, c', w')"
    by (rule retry_never_succeeds)
next
  assume "prepare env depth needs_keys needs_auth c w = Some (Inr u', c2', w2') \<and>
        send_api_request env method uri query_dict body_dict needs_keys needs_auth c2' w2' =
          (Inl e', w3)"
  then have p: "prepare env depth needs_keys needs_auth c w = Some (Inr u', c2', w2')"
    and s: "send_api_request env method uri query_dict body_dict needs_keys needs_auth c2' w2' =
          (Inl e', w3)"
    by simp_all
  show "api_request_retry env (Suc depth) method uri query_dict body_dict needs_keys needs_auth
          0 c w \<noteq> Some (Inr v, c', w')"
    by (rule recovery_never_succeeds [OF p s])
qed

theorem retry_raises_type_error_witness:
  "api_request_retry (test_env keys_text PNone []) (Suc 0) ''GET'' ''vehicle/status'' [] []
     False False 1 conn_keys world0 = Some (Inl TypeError, conn_keys, world0)"
proof -
  have a: "(0::nat) < 1"
    by simp
  have b: "\<not> MAX_RETRIES < 1"
    by (simp add: MAX_RETRIES_def)
  have p: "prepare (test_env keys_text PNone []) 0 False False conn_keys world0 =
      Some (Inr (), conn_keys, world0)"
    by (rule prepare_plain)
  from retry_raises_type_error [of 1 "test_env keys_text PNone []" 0 "''GET''"
      "''vehicle/status''" "[]" "[]" False False conn_keys world0,
      THEN conjunct2, THEN conjunct1] a
  have "api_request_retry (test_env keys_text PNone []) (Suc 0) ''GET'' ''vehicle/status''
      [] [] False False 1 conn_keys world0 =
        (if MAX_RETRIES < 1 then Some (Inl retries_exceeded, conn_keys, world0)
         else (case prepare (test_env keys_text PNone []) 0 False False conn_keys world0 of
                 None \<Rightarrow> None
               | Some (Inl e, c2, w2) \<Rightarrow> Some (Inl e, c2, w2)
               | Some (Inr u, c2, w2) \<Rightarrow> Some (Inl TypeError, c2, w2)))"
    by (rule mp)
  with b p show ?thesis
    by simp
qed

subsection \<open>Recovery from a rejected encryption\<close>

text \<open>
  Claim C3. When the request of the first attempt fails with
  \<^verbatim>\<open>MazdaAPIEncryptionException\<close> (which is what an envelope with error code 600001
  becomes), the pipeline is one call of \<^verbatim>\<open>__retrieve_keys\<close> followed, if that call
  returns, by the re-invocation of \<^verbatim>\<open>__api_request_retry\<close> with \<^verbatim>\<open>num_retries + 1\<close>; an
  exception of the key retrieval is passed on. The handler does not call \<^verbatim>\<open>login\<close>, and a
  key retrieval that returns has sent exactly one request, the POST of
  \<^verbatim>\<open>service/checkVersion\<close> to the main host, and has left the token and its expiration as
  they were: no login takes place between the failed attempt and the re-invocation.
\<close>

theorem encryption_rejected_recovery:
  assumes "prepare env depth needs_keys needs_auth c w = Some (Inr u, c2, w2)"
    and "send_api_request env method uri query_dict body_dict needs_keys needs_auth c2 w2 =
           (Inl (MazdaAPIEncryptionException msg), w3)"
  shows "api_request_retry env (Suc depth) method uri query_dict body_dict needs_keys
           needs_auth 0 c w =
         (case retrieve_keys env depth c2 w3 of
            None \<Rightarrow> None
          | Some (Inl e, c4, w4) \<Rightarrow> Some (Inl e, c4, w4)
          | Some (Inr x, c4, w4) \<Rightarrow>
              api_request_retry env depth method uri query_dict body_dict needs_keys
                needs_auth (0 + 1) c4 w4)
       \<and> (\<forall>x c4 w4. retrieve_keys env depth c2 w3 = Some (Inr x, c4, w4) \<longrightarrow>
            (\<exists>req. sent w4 = sent w3 @ [req] \<and>
                   rq_url req = BASE_URL @ ''service/checkVersion'' \<and> rq_method req = ''POST'')
            \<and> access_token c4 = access_token c2
            \<and> access_token_expiration_ts c4 = access_token_expiration_ts c2)
       \<and> (\<forall>j st. getitem j ''state'' = Inr st \<and> st \<noteq> PStr ''S'' \<and>
                 getitem j ''errorCode'' = Inr (PNum 600001) \<longrightarrow>
               handle_response env uri c2 j =
                 Inl (MazdaAPIEncryptionException ''Server rejected encrypted request''))"
proof -
  have a: "api_request_retry env (Suc depth) method uri query_dict body_dict needs_keys
           needs_auth 0 c w =
         (case retrieve_keys env depth c2 w3 of
            None \<Rightarrow> None
          | Some (Inl e, c4, w4) \<Rightarrow> Some (Inl e, c4, w4)
          | Some (Inr x, c4, w4) \<Rightarrow>
              api_request_retry env depth method uri query_dict body_dict needs_keys
                needs_auth (0 + 1) c4 w4)"
    unfolding first_attempt [OF assms] by (simp add: is_encryption_exn_def)
  have b: "(\<exists>req. sent w4 = sent w3 @ [req] \<and>
                   rq_url req = BASE_URL @ ''service/checkVersion'' \<and> rq_method req = ''POST'')
            \<and> access_token c4 = access_token c2
            \<and> access_token_expiration_ts c4 = access_token_expiration_ts c2"
    if "retrieve_keys env depth c2 w3 = Some (Inr x, c4, w4)" for x c4 w4
  proof -
    from retrieve_keys_success [OF that] obtain req response where
      r: "sent w4 = sent w3 @ [req]" "rq_url req = BASE_URL @ ''service/checkVersion''"
         "rq_method req = ''POST''"
      and st: "store_keys c2 response = (Inr x, c4)"
      by blast
    from store_keys_token [OF st] r show ?thesis by blast
  qed
  have d: "handle_response env uri c2 j =
                 Inl (MazdaAPIEncryptionException ''Server rejected encrypted request'')"
    if "getitem j ''state'' = Inr st \<and> st \<noteq> PStr ''S'' \<and>
        getitem j ''errorCode'' = Inr (PNum 600001)" for j st
    using that by (simp add: handle_response_def)
  show ?thesis
  proof (intro conjI allI impI)
    show "api_request_retry env (Suc depth) method uri query_dict body_dict needs_keys
           needs_auth 0 c w =
         (case retrieve_keys env depth c2 w3 of
            None \<Rightarrow> None
          | Some (Inl e, c4, w4) \<Rightarrow> Some (Inl e, c4, w4)
          | Some (Inr x, c4, w4) \<Rightarrow>
              api_request_retry env depth method uri query_dict body_dict needs_keys
                needs_auth (0 + 1) c4 w4)"
      by (rule a)
  qed (use b d in blast)+
qed


theorem encryption_rejected_recovery_witness:
  "map_option (\<lambda>(r, c, w). (r, c, map rq_url (sent w)))
     (api_request_retry (test_env keys_text PNone [error_response 600001]) (Suc (Suc 0))
        ''GET'' ''vehicle/status'' [] [] True False 0 conn_keys world0) =
   Some (Inl TypeError, conn_keys,
         [BASE_URL @ ''vehicle/status'', BASE_URL @ ''service/checkVersion''])"
proof -
  let ?env = "test_env keys_text PNone [error_response 600001]"
  let ?send = "send_api_request ?env ''GET'' ''vehicle/status'' [] [] True False conn_keys world0"
  have p: "prepare ?env (Suc 0) True False conn_keys world0 = Some (Inr (), conn_keys, world0)"
    by (simp add: prepare_def ensure_keys_present.simps conn_keys_def)
  have "fst ?send = Inl (MazdaAPIEncryptionException ''Server rejected encrypted request'')"
    by (simp add: model_defs test_defs)
  then have s: "?send =
      (Inl (MazdaAPIEncryptionException ''Server rejected encrypted request''), snd ?send)"
    by (metis prod.collapse)
  have eq: "api_request_retry ?env (Suc (Suc 0)) ''GET'' ''vehicle/status'' [] [] True False
      0 conn_keys world0 =
      (case retrieve_keys ?env (Suc 0) conn_keys (snd ?send) of
         None \<Rightarrow> None
       | Some (Inl e, c4, w4) \<Rightarrow> Some (Inl e, c4, w4)
       | Some (Inr x, c4, w4) \<Rightarrow>
           api_request_retry ?env (Suc 0) ''GET'' ''vehicle/status'' [] [] True False
             (0 + 1) c4 w4)"
    using encryption_rejected_recovery [OF p s] by (rule conjunct1)
  show ?thesis
    unfolding eq by (simp add: model_defs test_defs run_defs)
qed

subsection \<open>The sign header of an ordinary request\<close>

text \<open>
  Claim C4. For every payload and every non-empty timestamp \<open>t\<close>, when the signing key is
  a non-empty string \<open>k\<close>, \<^verbatim>\<open>__get_sign_from_payload_and_timestamp\<close> returns the upper-cased
  SHA-256 hex digest of \<^verbatim>\<open>encrypt(payload) + t + t[6:] + t[3:] + k\<close>, and fails exactly as
  the encryption of the payload fails. Given that \<^verbatim>\<open>hexdigest()\<close> returns 64 lower-case
  hexadecimal digits, the header has length 64, is unchanged by upper-casing and
  consists of the characters \<^verbatim>\<open>0-9A-F\<close>. It is a function of the payload, the timestamp
  and the two keys alone: connections that agree on the keys get the same header.
\<close>

theorem sign_from_payload_and_timestamp:
  assumes "sha256_format env" and "t \<noteq> ''''" and "sign_key c = PStr k" and "k \<noteq> ''''"
  shows "get_sign_from_payload_and_timestamp env c payload (Some t) =
           (case encrypt_payload_using_key env c payload of
              Inl e \<Rightarrow> Inl e
            | Inr enc \<Rightarrow> Inr (upper (sha256_hex env (enc @ t @ drop 6 t @ drop 3 t @ k))))
         \<and> (\<forall>s. get_sign_from_payload_and_timestamp env c payload (Some t) = Inr s \<longrightarrow>
               length s = 64 \<and> upper s = s \<and> set s \<subseteq> set ''0123456789ABCDEF'')
         \<and> (\<forall>c'. enc_key c' = enc_key c \<and> sign_key c' = sign_key c \<longrightarrow>
               get_sign_from_payload_and_timestamp env c' payload (Some t) =
               get_sign_from_payload_and_timestamp env c payload (Some t))"
proof -
  have eq: "get_sign_from_payload_and_timestamp env c payload (Some t) =
           (case encrypt_payload_using_key env c payload of
              Inl e \<Rightarrow> Inl e
            | Inr enc \<Rightarrow> Inr (upper (sha256_hex env (enc @ t @ drop 6 t @ drop 3 t @ k))))"
    using assms(2-4)
    by (simp add: get_sign_from_payload_and_timestamp_def get_payload_sign_str split: sum.splits)
  have fmt: "length s = 64 \<and> upper s = s \<and> set s \<subseteq> set ''0123456789ABCDEF''"
    if "get_sign_from_payload_and_timestamp env c payload (Some t) = Inr s" for s
  proof -
    from that eq obtain x where s: "s = upper (sha256_hex env x)"
      by (auto split: sum.splits)
    from assms(1) have len: "length (sha256_hex env x) = 64"
      and hex: "set (sha256_hex env x) \<subseteq> set ''0123456789abcdef''"
      unfolding sha256_format_def by blast+
    from len have "length s = 64" unfolding s by (simp only: length_upper)
    moreover have "upper s = s" unfolding s by (rule upper_idem)
    moreover from hex have "set s \<subseteq> set ''0123456789ABCDEF''" unfolding s by (rule upper_hex)
    ultimately show ?thesis by blast
  qed
  have det: "get_sign_from_payload_and_timestamp env c' payload (Some t) =
             get_sign_from_payload_and_timestamp env c payload (Some t)"
    if "enc_key c' = enc_key c \<and> sign_key c' = sign_key c" for c'
  proof -
    from that have "enc_key c' = enc_key c" and "sign_key c' = sign_key c" by simp_all
    then show ?thesis
      unfolding get_sign_from_payload_and_timestamp_def
      by (auto simp: encrypt_depends_on_key [of c' c] split: sum.splits)
  qed
  from eq fmt det show ?thesis by blast
qed

theorem sign_from_payload_and_timestamp_witness:
  "get_sign_from_payload_and_timestamp (test_env keys_text PNone []) conn_keys (Some ''12'')
     (Some ''1600000000123'') =
     Inr ''0123456789ABCDEF0123456789ABCDEF0123456789ABCDEF0123456789ABCDEF''"
proof -
  have f: "sha256_format (test_env keys_text PNone [])"
    by (simp add: sha256_format_def test_env_def)
  have k: "sign_key conn_keys = PStr ''qrstuvwxyz012345''"
    by (simp add: conn_keys_def)
  have e: "encrypt_payload_using_key (test_env keys_text PNone []) conn_keys (Some ''12'') = Inr ''21''"
    by (simp add: encrypt_payload_using_key_def conn_keys_def test_env_def)
  have t: "''1600000000123'' \<noteq> ''''" and n: "''qrstuvwxyz012345'' \<noteq> ''''"
    by simp_all
  have h: "sha256_hex (test_env keys_text PNone []) s =
      ''0123456789abcdef0123456789abcdef0123456789abcdef0123456789abcdef''" for s
    by (simp add: test_env_def)
  show ?thesis
    using sign_from_payload_and_timestamp [OF f t k n, of "Some ''12''", THEN conjunct1]
    by (simp add: e h upper_test_digest)
qed

subsection \<open>Decrypting an encrypted payload\<close>

text \<open>
  Claim C5, as stated, fails: \<^verbatim>\<open>__decrypt_payload_using_key\<close> ends with \<^verbatim>\<open>json.loads\<close>, so it
  returns the decoded JSON value of the plaintext and not the plaintext. In the concrete
  environment the plaintext \<^verbatim>\<open>12\<close> is encrypted to \<^verbatim>\<open>21\<close>, which decrypts to the number 12,
  not to the string \<^verbatim>\<open>"12"\<close>. (The theorem after it shows that this does not depend on the
  cipher chosen there: whenever the cipher helpers invert each other, the result is what
  \<^verbatim>\<open>json.loads\<close> makes of the plaintext.)
\<close>

theorem decrypt_encrypt_counterexample:
  "encrypt_payload_using_key (test_env keys_text PNone []) conn_keys (Some ''12'') = Inr ''21''
   \<and> decrypt_payload_using_key (test_env keys_text PNone []) conn_keys (PStr ''21'') =
       Inr (PNum 12)
   \<and> decrypt_payload_using_key (test_env keys_text PNone []) conn_keys (PStr ''21'') \<noteq>
       Inr (PStr ''12'')"
  by (simp add: encrypt_payload_using_key_def decrypt_payload_using_key_def conn_keys_def
        test_env_def known_texts_def keys_text_def)

text \<open>
  Claim C5, amended. For a key that is present and a non-empty plaintext \<open>p\<close> on which
  the AES helpers invert each other (the ciphertext \<open>ct\<close> of \<open>p\<close> decodes and decrypts to
  \<open>p\<close> again), \<^verbatim>\<open>__encrypt_payload_using_key\<close> returns \<open>ct\<close> and
  \<^verbatim>\<open>__decrypt_payload_using_key\<close> of \<open>ct\<close> returns \<^verbatim>\<open>json.loads(p)\<close>: the value \<open>p\<close> decodes
  to, or the decoding error when \<open>p\<close> is not JSON.
\<close>

theorem decrypt_encrypt:
  assumes "\<not> absent_or_empty (enc_key c)" and "p \<noteq> ''''"
    and "aes_encrypt_b64 env p (enc_key c) IV = Some ct"
    and "b64decode env (PStr ct) = Some buf"
    and "aes_decrypt_str env buf (enc_key c) IV = Some p"
  shows "encrypt_payload_using_key env c (Some p) = Inr ct
         \<and> decrypt_payload_using_key env c (PStr ct) =
             (case json_loads env p of None \<Rightarrow> Inl JSONDecodeError | Some v \<Rightarrow> Inr v)"
  using assms
  by (simp add: encrypt_payload_using_key_def decrypt_payload_using_key_def
        absent_or_empty_def)

theorem decrypt_encrypt_witness:
  "encrypt_payload_using_key (test_env keys_text PNone []) conn_keys (Some keys_text) =
     Inr (rev keys_text)
   \<and> decrypt_payload_using_key (test_env keys_text PNone []) conn_keys (PStr (rev keys_text)) =
     Inr keys_json"
proof -
  let ?env = "test_env keys_text PNone []"
  have k: "\<not> absent_or_empty (enc_key conn_keys)"
    by (simp add: absent_or_empty_def conn_keys_def)
  have p: "keys_text \<noteq> ''''"
    by (simp add: keys_text_def)
  have e: "aes_encrypt_b64 ?env keys_text (enc_key conn_keys) IV = Some (rev keys_text)"
    by (simp add: test_env_def conn_keys_def)
  have b: "b64decode ?env (PStr (rev keys_text)) = Some (rev keys_text)"
    by (simp add: test_env_def)
  have d: "aes_decrypt_str ?env (rev keys_text) (enc_key conn_keys) IV = Some keys_text"
    by (simp add: test_env_def conn_keys_def)
  have j: "json_loads ?env keys_text = Some keys_json"
    by (simp add: test_env_def known_texts_def)
  from decrypt_encrypt [OF k p e b d] j show ?thesis
    by simp
qed

subsection \<open>Login with invalid credentials\<close>

text \<open>
  Claim C6. When the response to the login request has the status
  \<^verbatim>\<open>"INVALID_CREDENTIAL"\<close>, \<^verbatim>\<open>login\<close> raises \<^verbatim>\<open>MazdaAuthenticationException\<close> and leaves the
  connection as it was, token and expiration included. On every status other than
  \<^verbatim>\<open>"OK"\<close> the classification raises and assigns nothing; and whenever a run of \<^verbatim>\<open>login\<close>
  changes the connection at all, the login response it received had the status \<^verbatim>\<open>"OK"\<close>.
\<close>

theorem login_invalid_credential:
  "(getitem j ''status'' = Inr (PStr ''INVALID_CREDENTIAL'') \<longrightarrow>
      login_response c j = (Inl (MazdaAuthenticationException ''Invalid email or password''), c))
   \<and> (login_request env c w = (Inr j, w') \<and>
        getitem j ''status'' = Inr (PStr ''INVALID_CREDENTIAL'') \<longrightarrow>
      login env c w = (Inl (MazdaAuthenticationException ''Invalid email or password''), c, w'))
   \<and> (\<forall>st. getitem j ''status'' = Inr st \<and> st \<noteq> PStr ''OK'' \<longrightarrow>
        snd (login_response c j) = c \<and> (\<exists>e. fst (login_response c j) = Inl e))
   \<and> (login env c w = (r, c', w') \<and> c' \<noteq> c \<longrightarrow>
        (\<exists>j'. login_request env c w = (Inr j', w') \<and>
              getitem j' ''status'' = Inr (PStr ''OK'')))"
proof -
  have a: "login_response c j = (Inl (MazdaAuthenticationException ''Invalid email or password''), c)"
    if "getitem j ''status'' = Inr (PStr ''INVALID_CREDENTIAL'')"
    using that by (simp add: login_response_def)
  have b: "login env c w = (Inl (MazdaAuthenticationException ''Invalid email or password''), c, w')"
    if "login_request env c w = (Inr j, w') \<and>
        getitem j ''status'' = Inr (PStr ''INVALID_CREDENTIAL'')"
    using that a by (simp add: login_def)
  have d: "\<exists>j'. login_request env c w = (Inr j', w') \<and>
              getitem j' ''status'' = Inr (PStr ''OK'')"
    if "login env c w = (r, c', w') \<and> c' \<noteq> c"
    using that
    by (auto simp: login_def split: sum.splits prod.splits dest: login_response_changed)
  from a b d login_response_not_ok show ?thesis by blast
qed

theorem login_invalid_credential_witness:
  "fst (login (test_env keys_text (login_status ''INVALID_CREDENTIAL'') []) conn0 world0) =
     Inl (MazdaAuthenticationException ''Invalid email or password'')
   \<and> fst (snd (login (test_env keys_text (login_status ''INVALID_CREDENTIAL'') []) conn0 world0)) =
     conn0
   \<and> access_token conn0 = PNone"
proof -
  let ?env = "test_env keys_text (login_status ''INVALID_CREDENTIAL'') []"
  let ?j = "login_status ''INVALID_CREDENTIAL''"
  have f: "fst (login_request ?env conn0 world0) = Inr ?j"
    by (simp add: model_defs test_defs)
  then have lr: "login_request ?env conn0 world0 = (Inr ?j, snd (login_request ?env conn0 world0))"
    by (metis prod.collapse)
  have st: "getitem ?j ''status'' = Inr (PStr ''INVALID_CREDENTIAL'')"
    by (simp add: getitem_def login_status_def)
  from login_invalid_credential [of ?j conn0 ?env world0 "snd (login_request ?env conn0 world0)"]
    lr st
  have "login ?env conn0 world0 =
    (Inl (MazdaAuthenticationException ''Invalid email or password''), conn0,
     snd (login_request ?env conn0 world0))"
    by blast
  then show ?thesis
    by (simp add: conn0_def init_def)
qed

subsection \<open>The two keys\<close>

text \<open>
  Claim C7, as stated, fails. \<^verbatim>\<open>__retrieve_keys\<close> assigns the two keys in two statements,
  \<^verbatim>\<open>self.enc_key = response["encKey"]\<close> and then \<^verbatim>\<open>self.sign_key = response["signKey"]\<close>,
  and checks nothing about the response. When the decoded key response has a field
  \<^verbatim>\<open>encKey\<close> and no field \<^verbatim>\<open>signKey\<close>, the first assignment is done and the second raises
  \<^verbatim>\<open>KeyError\<close>: from the initial connection, where both keys are unset, the key retrieval
  ends with the encryption key set and the signing key unset.
\<close>

theorem keys_partial_counterexample:
  "keys_together conn0
   \<and> map_option (\<lambda>(r, c, w). (r, enc_key c, sign_key c))
       (retrieve_keys test_env_enc_only (Suc 0) conn0 world0) =
     Some (Inl (KeyError ''signKey''), PStr ''abcdefghijklmnop'', PNone)
   \<and> \<not> keys_together (conn0\<lparr>enc_key := PStr ''abcdefghijklmnop''\<rparr>)"
  by (simp add: model_defs test_defs run_defs keys_together_def)

text \<open>
  Claim C7, amended. Both keys are unset in the initial connection. \<^verbatim>\<open>login\<close> and
  \<^verbatim>\<open>__ensure_token_is_valid\<close> leave both keys as they are; the keys are assigned by the
  two assignments of \<^verbatim>\<open>__retrieve_keys\<close> only, both from the one response, and these keep
  ``both set or both unset'' when the response is well-formed: if it has a field
  \<^verbatim>\<open>encKey\<close>, it has a field \<^verbatim>\<open>signKey\<close> too, and the two are both \<^verbatim>\<open>null\<close> or both not.
  When every key response that the server returns to a key retrieval (a \<^verbatim>\<open>POST\<close> of
  \<^verbatim>\<open>service/checkVersion\<close> on the main host) is well-formed in this sense, the predicate is
  preserved by \<^verbatim>\<open>api_request\<close>, \<^verbatim>\<open>__api_request_retry\<close>, \<^verbatim>\<open>__ensure_keys_present\<close> and
  \<^verbatim>\<open>__retrieve_keys\<close>, whatever they return and at every depth of calls. The condition is
  on the answers of the server only: the bootstrap key is derived from constants of the
  program, so a payload that decrypts to a key response without \<^verbatim>\<open>signKey\<close> always exists,
  and the predicate is kept as long as the server does not send it.
\<close>

theorem keys_assigned_together:
  "keys_together (init em pw)
   \<and> (login env c w = (r1, c1, w1) \<longrightarrow> enc_key c1 = enc_key c \<and> sign_key c1 = sign_key c)
   \<and> (ensure_token_is_valid env c w = (r2, c2, w2) \<longrightarrow>
        enc_key c2 = enc_key c \<and> sign_key c2 = sign_key c)
   \<and> (key_response_ok response \<and> keys_together c \<longrightarrow>
        keys_together (snd (store_keys c response)))
   \<and> (key_responses_ok env \<and> keys_together c \<longrightarrow>
        (\<forall>r' c' w'. api_request env depth method uri query_dict body_dict needs_keys
                       needs_auth c w = Some (r', c', w') \<longrightarrow> keys_together c')
      \<and> (\<forall>r' c' w'. api_request_retry env depth method uri query_dict body_dict needs_keys
                       needs_auth num_retries c w = Some (r', c', w') \<longrightarrow> keys_together c')
      \<and> (\<forall>r' c' w'. ensure_keys_present env depth c w = Some (r', c', w') \<longrightarrow>
                     keys_together c')
      \<and> (\<forall>r' c' w'. retrieve_keys env depth c w = Some (r', c', w') \<longrightarrow> keys_together c'))"
proof (intro conjI impI allI)
  show "keys_together (init em pw)"
    by (simp add: keys_together_def init_def)
next
  assume "login env c w = (r1, c1, w1)"
  then show "enc_key c1 = enc_key c" and "sign_key c1 = sign_key c"
    by (simp_all add: login_keys)
next
  assume "ensure_token_is_valid env c w = (r2, c2, w2)"
  then show "enc_key c2 = enc_key c" and "sign_key c2 = sign_key c"
    by (simp_all add: ensure_token_keys)
next
  assume "key_response_ok response \<and> keys_together c"
  then show "keys_together (snd (store_keys c response))"
    using store_keys_together [of response c "fst (store_keys c response)"
        "snd (store_keys c response)"]
    by simp
next
  fix r' c' w'
  assume h: "key_responses_ok env \<and> keys_together c"
  then have ok: "key_responses_ok env" and kt: "keys_together c"
    by simp_all
  have rk: "keys_together c1'"
    if "keys_together c0" and "retrieve_keys env d c0 w0 = Some (r0, c1', w1')"
    for d c0 w0 r0 c1' w1'
    using ok pipeline_together [OF ok] that by (rule retrieve_keys_together)
  {
    assume "api_request env depth method uri query_dict body_dict needs_keys needs_auth c w =
      Some (r', c', w')"
    then have "api_request_retry env depth method uri query_dict body_dict needs_keys
      needs_auth 0 c w = Some (r', c', w')"
      by (simp add: api_request.simps)
    with ok kt show "keys_together c'"
      by (rule pipeline_together)
  }
  {
    assume "api_request_retry env depth method uri query_dict body_dict needs_keys
      needs_auth num_retries c w = Some (r', c', w')"
    with ok kt show "keys_together c'"
      by (rule pipeline_together)
  }
  {
    assume "ensure_keys_present env depth c w = Some (r', c', w')"
    with kt rk [OF kt, of depth w r' c' w'] show "keys_together c'"
      by (auto simp: ensure_keys_present_eq split: if_splits)
  }
  {
    assume "retrieve_keys env depth c w = Some (r', c', w')"
    with kt show "keys_together c'"
      by (rule rk)
  }
qed

theorem keys_assigned_together_witness:
  "keys_together conn0
   \<and> map_option (\<lambda>(r, c, w). (r, keys_together c))
       (retrieve_keys test_env_keys (Suc 0) conn0 world0) =
     Some (Inr (), True)
   \<and> decrypt_payload_using_app_code test_env_keys (PStr (rev enc_only_text)) =
       Inr (PDict [(''encKey'', PStr ''abcdefghijklmnop'')])
   \<and> \<not> key_response_ok (PDict [(''encKey'', PStr ''abcdefghijklmnop'')])"
proof -
  have ok: "key_responses_ok test_env_keys"
    by (rule test_key_responses_ok)
  have kt: "keys_together conn0"
    by (simp add: keys_together_def conn0_def init_def)
  have "map_option fst (retrieve_keys test_env_keys (Suc 0) conn0 world0) = Some (Inr ())"
    by (simp add: model_defs test_defs run_defs)
  then obtain c' w' where
    run: "retrieve_keys test_env_keys (Suc 0) conn0 world0 = Some (Inr (), c', w')"
    by (cases "retrieve_keys test_env_keys (Suc 0) conn0 world0") auto
  from keys_assigned_together [of "''user@example.com''" "''pw''" test_env_keys conn0 world0
      "Inr ()" conn0 world0 "Inr ()" conn0 world0 PNone "Suc 0" "''POST''"
      "''service/checkVersion''" "[]" "[]" False False 0] ok kt run
  have "keys_together c'"
    by blast
  moreover have "decrypt_payload_using_app_code test_env_keys (PStr (rev enc_only_text)) =
      Inr (PDict [(''encKey'', PStr ''abcdefghijklmnop'')])"
    by (simp add: decrypt_payload_using_app_code_def test_env_keys_def test_env_def)
  moreover have "\<not> key_response_ok (PDict [(''encKey'', PStr ''abcdefghijklmnop'')])"
    by (simp add: key_response_ok_def getitem_def)
  ultimately show ?thesis
    using kt run by simp
qed

subsection \<open>The ``missing key'' guard of the wrappers\<close>

text \<open>
  Claim C8, as stated, fails for the signing wrapper in both directions. With the signing
  key present and the encryption key unset, signing a payload raises a missing-key error
  all the same (``Missing encryption key'', from the encryption of the payload); and with
  the signing key unset and an empty timestamp it raises nothing, because the empty
  timestamp returns \<^verbatim>\<open>""\<close> before any key is tested.
\<close>

theorem sign_missing_key_counterexample:
  "get_sign_from_payload_and_timestamp (test_env keys_text PNone [])
     (conn0\<lparr>sign_key := PStr ''qrstuvwxyz012345''\<rparr>) (Some ''12'') (Some ''1600000000123'') =
     Inl (MazdaException ''Missing encryption key'')
   \<and> get_sign_from_payload_and_timestamp (test_env keys_text PNone []) conn0 (Some ''12'')
     (Some '''') = Inr ''''"
  by (simp add: get_sign_from_payload_and_timestamp_def encrypt_payload_using_key_def
        conn0_def init_def)

text \<open>
  Claim C8, amended. \<^verbatim>\<open>__encrypt_payload_using_key\<close> and \<^verbatim>\<open>__decrypt_payload_using_key\<close>
  raise a missing-key error if and only if the encryption key is \<^verbatim>\<open>None\<close> or \<^verbatim>\<open>""\<close>.
  \<^verbatim>\<open>__get_sign_from_payload_and_timestamp\<close> with a non-empty timestamp raises one if and
  only if the signing key or the encryption key is \<^verbatim>\<open>None\<close> or \<^verbatim>\<open>""\<close>; with an empty or
  missing timestamp it returns \<^verbatim>\<open>""\<close> and raises nothing.
\<close>

theorem missing_key_errors:
  "((\<exists>e. encrypt_payload_using_key env c payload = Inl e \<and> missing_key_error e) =
      absent_or_empty (enc_key c))
   \<and> ((\<exists>e. decrypt_payload_using_key env c p = Inl e \<and> missing_key_error e) =
      absent_or_empty (enc_key c))
   \<and> (t \<noteq> '''' \<longrightarrow>
        ((\<exists>e. get_sign_from_payload_and_timestamp env c payload (Some t) = Inl e \<and>
              missing_key_error e) =
         (absent_or_empty (sign_key c) \<or> absent_or_empty (enc_key c))))
   \<and> get_sign_from_payload_and_timestamp env c payload (Some '''') = Inr ''''
   \<and> get_sign_from_payload_and_timestamp env c payload None = Inr ''''"
proof -
  have enc: "(\<exists>e. encrypt_payload_using_key env c payload = Inl e \<and> missing_key_error e) =
      absent_or_empty (enc_key c)"
  proof (cases "absent_or_empty (enc_key c)")
    case True
    then show ?thesis
      by (simp add: encrypt_missing_key missing_key_error_def)
  next
    case False
    then show ?thesis
      by (auto simp: missing_key_error_def dest: encrypt_present_key)
  qed
  have dec: "(\<exists>e. decrypt_payload_using_key env c p = Inl e \<and> missing_key_error e) =
      absent_or_empty (enc_key c)"
  proof (cases "absent_or_empty (enc_key c)")
    case True
    then show ?thesis
      by (simp add: decrypt_payload_using_key_def absent_or_empty_def missing_key_error_def)
  next
    case False
    then show ?thesis
      by (auto simp: missing_key_error_def dest: decrypt_present_key)
  qed
  have sgn: "(\<exists>e. get_sign_from_payload_and_timestamp env c payload (Some t) = Inl e \<and>
              missing_key_error e) =
         (absent_or_empty (sign_key c) \<or> absent_or_empty (enc_key c))" if t: "t \<noteq> ''''"
  proof (cases "absent_or_empty (sign_key c)")
    case True
    with t show ?thesis
      by (simp add: get_sign_from_payload_and_timestamp_def absent_or_empty_def
            missing_key_error_def)
  next
    case sk: False
    show ?thesis
    proof (cases "absent_or_empty (enc_key c)")
      case True
      with t sk show ?thesis
        by (simp add: get_sign_from_payload_and_timestamp_def encrypt_missing_key
              missing_key_error_def absent_or_empty_def)
    next
      case False
      have "\<not> missing_key_error e"
        if "get_sign_from_payload_and_timestamp env c payload (Some t) = Inl e" for e
      proof -
        from that t sk have "e = CryptoError \<or> e = TypeError"
          using encrypt_present_key [OF False] get_payload_sign_error
          by (auto simp: get_sign_from_payload_and_timestamp_def absent_or_empty_def
                   split: sum.splits)
        then show ?thesis
          by (auto simp: missing_key_error_def)
      qed
      with sk False show ?thesis by blast
    qed
  qed
  have e1: "get_sign_from_payload_and_timestamp env c payload (Some '''') = Inr ''''"
    and e2: "get_sign_from_payload_and_timestamp env c payload None = Inr ''''"
    by (simp_all add: get_sign_from_payload_and_timestamp_def)
  from enc dec sgn e1 e2 show ?thesis by blast
qed

theorem missing_key_errors_witness:
  "\<exists>e. get_sign_from_payload_and_timestamp (test_env keys_text PNone []) conn0 (Some ''12'')
          (Some ''1600000000123'') = Inl e \<and> missing_key_error e"
proof -
  have t: "''1600000000123'' \<noteq> ''''" by simp
  have k: "absent_or_empty (sign_key conn0)"
    by (simp add: absent_or_empty_def conn0_def init_def)
  from missing_key_errors [of "test_env keys_text PNone []" conn0 "Some ''12''" PNone
      "''1600000000123''"] t k
  show ?thesis by blast
qed

subsection \<open>The validity check of the token\<close>

text \<open>
  Claim C9. For a connection whose expiration is unset or a number,
  \<^verbatim>\<open>__ensure_token_is_valid\<close> is \<^verbatim>\<open>login\<close> when the token is unset, or the expiration is unset,
  or the expiration is at most the clock's reading; otherwise it returns at once with the
  connection unchanged. As \<^verbatim>\<open>login\<close> always sends a request, the check sends requests if and
  only if that condition holds.
\<close>

theorem ensure_token_is_valid_login_iff:
  assumes "access_token_expiration_ts c = PNone \<or>
           num_of (access_token_expiration_ts c) = Some expiration"
  shows "ensure_token_is_valid env c w =
           (if access_token c = PNone \<or> access_token_expiration_ts c = PNone then login env c w
            else if expiration \<le> clock env (ticks w)
              then login env c (w\<lparr>ticks := Suc (ticks w)\<rparr>)
            else (Inr (), c, w\<lparr>ticks := Suc (ticks w)\<rparr>))
         \<and> ((sent (snd (snd (ensure_token_is_valid env c w))) \<noteq> sent w) =
              (access_token c = PNone \<or> access_token_expiration_ts c = PNone \<or>
               expiration \<le> clock env (ticks w)))"
proof -
  have eq: "ensure_token_is_valid env c w =
           (if access_token c = PNone \<or> access_token_expiration_ts c = PNone then login env c w
            else if expiration \<le> clock env (ticks w)
              then login env c (w\<lparr>ticks := Suc (ticks w)\<rparr>)
            else (Inr (), c, w\<lparr>ticks := Suc (ticks w)\<rparr>))"
    using assms
    by (auto simp: ensure_token_is_valid_def time_time_def py_le_def)
  have ls: "sent (snd (snd (login env c v))) \<noteq> sent v" for v
    using login_sent [of env c v "fst (login env c v)" "fst (snd (login env c v))"
        "snd (snd (login env c v))"]
    by auto
  have ls': "sent (snd (snd (login env c (w\<lparr>ticks := Suc (ticks w)\<rparr>)))) \<noteq> sent w"
    using ls [of "w\<lparr>ticks := Suc (ticks w)\<rparr>"] by simp
  show ?thesis
    unfolding eq using ls [of w] ls' by auto
qed

theorem ensure_token_is_valid_login_iff_witness:
  "ensure_token_is_valid (test_env keys_text PNone [])
     (conn0\<lparr>access_token := PStr ''tok'', access_token_expiration_ts := PNum 1700000000\<rparr>)
     world0 =
     (Inr (), conn0\<lparr>access_token := PStr ''tok'', access_token_expiration_ts := PNum 1700000000\<rparr>,
      world0\<lparr>ticks := Suc 0\<rparr>)"
proof -
  let ?c = "conn0\<lparr>access_token := PStr ''tok'', access_token_expiration_ts := PNum 1700000000\<rparr>"
  have h: "access_token_expiration_ts ?c = PNone \<or>
           num_of (access_token_expiration_ts ?c) = Some 1700000000"
    by (simp add: num_of_def)
  from ensure_token_is_valid_login_iff [OF h, of "test_env keys_text PNone []" world0]
  show ?thesis
    by (simp add: test_env_def world0_def)
qed

subsection \<open>Encrypting the empty payload\<close>

text \<open>
  Claim C10, as stated, for every key: it fails for the empty key. \<^verbatim>\<open>__encrypt_payload_using_key\<close>
  tests the key before it looks at the payload, so with \<^verbatim>\<open>enc_key == ""\<close> the empty
  payload raises ``Missing encryption key'' instead of returning \<^verbatim>\<open>""\<close>.
\<close>

theorem encrypt_empty_payload_empty_key:
  "encrypt_payload_using_key (test_env keys_text PNone []) (conn0\<lparr>enc_key := PStr ''''\<rparr>)
     (Some '''') = Inl (MazdaException ''Missing encryption key'')
   \<and> encrypt_payload_using_key (test_env keys_text PNone []) (conn0\<lparr>enc_key := PStr ''''\<rparr>)
     (Some '''') \<noteq> Inr ''''"
  by (simp add: encrypt_payload_using_key_def)

text \<open>
  Claim C10, amended. For every key that is present (neither \<^verbatim>\<open>None\<close> nor \<^verbatim>\<open>""\<close>),
  encrypting the empty payload returns the empty string, and it does so whatever the
  AES helper is, also one that always raises: the cipher is not consulted.
\<close>

theorem encrypt_empty_payload:
  "\<not> absent_or_empty (enc_key c) \<Longrightarrow>
   encrypt_payload_using_key (env\<lparr>aes_encrypt_b64 := cipher\<rparr>) c (Some '''') = Inr ''''"
  by (simp add: encrypt_payload_using_key_def absent_or_empty_def)

theorem encrypt_empty_payload_witness:
  "encrypt_payload_using_key
     ((test_env keys_text PNone [])\<lparr>aes_encrypt_b64 := (\<lambda>buf key iv. None)\<rparr>) conn_keys
     (Some '''') = Inr ''''"
proof -
  have "\<not> absent_or_empty (enc_key conn_keys)"
    by (simp add: absent_or_empty_def conn_keys_def)
  then show ?thesis
    by (rule encrypt_empty_payload)
qed

end
